theory Spec2Isabelle
  imports Main
begin

section \<open>Data model (types.ts)\<close>

text \<open>
  The enum \<^verbatim>\<open>ExitStrategy\<close>, the interface \<^verbatim>\<open>ExitOptions\<close>, the type
  \<^verbatim>\<open>Required<ExitOptions>\<close> of the merged configuration, and the interface
  \<^verbatim>\<open>ExitResult\<close> whose \<^verbatim>\<open>error\<close> key is optional.

  An optional field \<^verbatim>\<open>f?: T\<close> has three states: the key is absent (\<open>None\<close>), the key
  is present with the value \<^verbatim>\<open>undefined\<close> (\<open>Some Undefined\<close>), or it is present with a
  value of \<^verbatim>\<open>T\<close> (\<open>Some (Defined v)\<close>). The object spread copies a present key whatever
  its value, so a field of the merged record can be \<^verbatim>\<open>undefined\<close> at run time although
  its type says otherwise. The JavaScript number \<^verbatim>\<open>forceDelay\<close> is only ever handed on
  to \<^verbatim>\<open>setTimeout\<close>; it is an \<open>int\<close> here.
\<close>

datatype ExitStrategy = BACK_HANDLER | RELOAD | FORCE_CRASH | GRACEFUL

datatype 'a or_undefined = Undefined | Defined 'a

record ExitOptions =
  errorMessage_opt :: "string or_undefined option"
  useReload_opt :: "bool or_undefined option"
  forceDelay_opt :: "int or_undefined option"

record RequiredExitOptions =
  errorMessage :: "string or_undefined"
  useReload :: "bool or_undefined"
  forceDelay :: "int or_undefined"

record ExitResult =
  success :: bool
  strategy :: ExitStrategy
  error :: "string option"

text \<open>The test \<^verbatim>\<open>if (config.useReload)\<close>: \<^verbatim>\<open>undefined\<close> is falsy.\<close>

definition truthy :: "bool or_undefined \<Rightarrow> bool" where
  "truthy v = (case v of Undefined \<Rightarrow> False | Defined b \<Rightarrow> b)"

text \<open>The \<^verbatim>\<open>message\<close> of \<^verbatim>\<open>new Error(errorMessage)\<close>: the empty string when the
  argument is \<^verbatim>\<open>undefined\<close>.\<close>

definition new_Error_message :: "string or_undefined \<Rightarrow> string" where
  "new_Error_message v = (case v of Undefined \<Rightarrow> [] | Defined m \<Rightarrow> m)"

section \<open>The runtime the class runs against\<close>

text \<open>
  A thrown (or rejected-with) value is either an instance of \<^verbatim>\<open>Error\<close>, which has a
  \<^verbatim>\<open>message\<close>, or some other value, which carries none. Every catch clause of the class
  reads it with \<^verbatim>\<open>error instanceof Error ? error.message : fallback\<close>.
\<close>

datatype thrown = Error_instance string | Non_Error

definition message_or :: "thrown \<Rightarrow> string \<Rightarrow> string" where
  "message_or e fallback = (case e of Error_instance m \<Rightarrow> m | Non_Error \<Rightarrow> fallback)"

text \<open>
  \<^verbatim>\<open>BackHandler.exitApp\<close>: either not callable (\<^verbatim>\<open>BackHandler\<close> is nullish or the
  property is no function), and then the call expression raises a \<^verbatim>\<open>TypeError\<close> whose
  message the engine chooses, or a function that returns or throws.
\<close>

datatype exitApp_behaviour = ExitApp_returns | ExitApp_throws thrown

datatype exitApp_slot = ExitApp_not_callable string | ExitApp_function exitApp_behaviour

text \<open>
  \<^verbatim>\<open>Updates.reloadAsync\<close>: not callable (the stub of the module sets it to
  \<^verbatim>\<open>null\<close>), or a function whose promise resolves, rejects or never settles, or that
  throws before it returns a promise.
\<close>

datatype reloadAsync_behaviour =
  Reload_resolves | Reload_rejects thrown | Reload_throws thrown | Reload_never_settles

datatype reloadAsync_slot =
  ReloadAsync_not_callable string | ReloadAsync_function reloadAsync_behaviour

record runtime =
  BackHandler_exitApp :: exitApp_slot
  Updates_isEnabled :: bool
  Updates_reloadAsync :: reloadAsync_slot
  setTimeout_throws :: "thrown option"
  ErrorUtils_reportFatalError :: bool

text \<open>
  What a call leaves behind: the primitives it ran, in order, and the timers it scheduled
  that have not fired yet (the delay and the \<^verbatim>\<open>errorMessage\<close> argument the callback
  closes over, called \<open>message\<close> below, both as they were passed). A reported fatal error
  is recorded with the message of the \<^verbatim>\<open>Error\<close> object.
\<close>

datatype event = ExitApp_called | ReloadAsync_called | Fatal_reported string

record world =
  events :: "event list"
  timers :: "(int or_undefined \<times> string or_undefined) list"

text \<open>
  A computation returns a value, raises, or stays pending for ever (an awaited promise
  that never settles); it also changes the world.
\<close>

datatype 'a outcome = Returned 'a | Raised thrown | Pending

type_synonym 'a comp = "world \<Rightarrow> 'a outcome \<times> world"

definition return_c :: "'a \<Rightarrow> 'a comp" where
  "return_c x w = (Returned x, w)"

definition raise_c :: "thrown \<Rightarrow> 'a comp" where
  "raise_c e w = (Raised e, w)"

definition bind_c :: "'a comp \<Rightarrow> ('a \<Rightarrow> 'b comp) \<Rightarrow> 'b comp" where
  "bind_c m f w =
     (case m w of
        (Returned x, w') \<Rightarrow> f x w'
      | (Raised e, w') \<Rightarrow> (Raised e, w')
      | (Pending, w') \<Rightarrow> (Pending, w'))"

definition try_catch :: "'a comp \<Rightarrow> (thrown \<Rightarrow> 'a comp) \<Rightarrow> 'a comp" where
  "try_catch m h w =
     (case m w of
        (Returned x, w') \<Rightarrow> (Returned x, w')
      | (Raised e, w') \<Rightarrow> h e w'
      | (Pending, w') \<Rightarrow> (Pending, w'))"

subsection \<open>The primitives\<close>

definition call_exitApp :: "runtime \<Rightarrow> unit comp" where
  "call_exitApp rt w =
     (case BackHandler_exitApp rt of
        ExitApp_not_callable m \<Rightarrow> (Raised (Error_instance m), w)
      | ExitApp_function b \<Rightarrow>
          (case b of
             ExitApp_returns \<Rightarrow> (Returned (), w\<lparr>events := events w @ [ExitApp_called]\<rparr>)
           | ExitApp_throws e \<Rightarrow> (Raised e, w\<lparr>events := events w @ [ExitApp_called]\<rparr>)))"

definition await_reloadAsync :: "runtime \<Rightarrow> unit comp" where
  "await_reloadAsync rt w =
     (case Updates_reloadAsync rt of
        ReloadAsync_not_callable m \<Rightarrow> (Raised (Error_instance m), w)
      | ReloadAsync_function b \<Rightarrow>
          (case b of
             Reload_resolves \<Rightarrow> (Returned (), w\<lparr>events := events w @ [ReloadAsync_called]\<rparr>)
           | Reload_rejects e \<Rightarrow> (Raised e, w\<lparr>events := events w @ [ReloadAsync_called]\<rparr>)
           | Reload_throws e \<Rightarrow> (Raised e, w\<lparr>events := events w @ [ReloadAsync_called]\<rparr>)
           | Reload_never_settles \<Rightarrow> (Pending, w\<lparr>events := events w @ [ReloadAsync_called]\<rparr>)))"

text \<open>\<^verbatim>\<open>setTimeout(callback, delay)\<close>, the callback standing for the closure over
  \<^verbatim>\<open>errorMessage\<close>: the timer is queued, nothing of the callback runs.\<close>

definition setTimeout ::
  "runtime \<Rightarrow> string or_undefined \<Rightarrow> int or_undefined \<Rightarrow> unit comp" where
  "setTimeout rt message delay w =
     (case setTimeout_throws rt of
        Some e \<Rightarrow> (Raised e, w)
      | None \<Rightarrow> (Returned (), w\<lparr>timers := timers w @ [(delay, message)]\<rparr>))"

text \<open>The body of the callback, run by the runtime when the timer fires: it builds
  \<^verbatim>\<open>new Error(errorMessage)\<close> and reports it, or throws it.\<close>

definition crash_callback :: "runtime \<Rightarrow> string or_undefined \<Rightarrow> unit comp" where
  "crash_callback rt message w =
     (if ErrorUtils_reportFatalError rt
      then (Returned (), w\<lparr>events := events w @ [Fatal_reported (new_Error_message message)]\<rparr>)
      else (Raised (Error_instance (new_Error_message message)), w))"

section \<open>The class ExitApp\<close>

definition defaultOptions :: RequiredExitOptions where
  "defaultOptions =
     \<lparr>errorMessage = Defined ''App terminated'', useReload = Defined True,
      forceDelay = Defined 100\<rparr>"

text \<open>The object spread \<^verbatim>\<open>{ ...defaults, ...options }\<close>: a key present in
  \<^verbatim>\<open>options\<close> wins, whatever its value.\<close>

definition spread :: "RequiredExitOptions \<Rightarrow> ExitOptions \<Rightarrow> RequiredExitOptions" where
  "spread d opts =
     \<lparr>errorMessage = (case errorMessage_opt opts of None \<Rightarrow> errorMessage d | Some v \<Rightarrow> v),
      useReload = (case useReload_opt opts of None \<Rightarrow> useReload d | Some v \<Rightarrow> v),
      forceDelay = (case forceDelay_opt opts of None \<Rightarrow> forceDelay d | Some v \<Rightarrow> v)\<rparr>"

text \<open>A merged configuration passed where \<^verbatim>\<open>ExitOptions\<close> is expected: every key is
  present.\<close>

definition as_options :: "RequiredExitOptions \<Rightarrow> ExitOptions" where
  "as_options c =
     \<lparr>errorMessage_opt = Some (errorMessage c), useReload_opt = Some (useReload c),
      forceDelay_opt = Some (forceDelay c)\<rparr>"

subsection \<open>The three leaf handlers\<close>

definition exitWithBackHandler :: "runtime \<Rightarrow> ExitResult comp" where
  "exitWithBackHandler rt =
     try_catch
       (bind_c (call_exitApp rt)
          (\<lambda>_. return_c \<lparr>success = True, strategy = BACK_HANDLER, error = None\<rparr>))
       (\<lambda>e. return_c \<lparr>success = False, strategy = BACK_HANDLER,
                      error = Some (message_or e ''BackHandler failed'')\<rparr>)"

definition exitWithReload :: "runtime \<Rightarrow> ExitResult comp" where
  "exitWithReload rt =
     try_catch
       (if Updates_isEnabled rt
        then bind_c (await_reloadAsync rt)
               (\<lambda>_. return_c \<lparr>success = True, strategy = RELOAD, error = None\<rparr>)
        else return_c \<lparr>success = False, strategy = RELOAD,
                       error = Some ''Updates not enabled''\<rparr>)
       (\<lambda>e. return_c \<lparr>success = False, strategy = RELOAD,
                      error = Some (message_or e ''Reload failed'')\<rparr>)"

definition exitWithForceCrash ::
  "runtime \<Rightarrow> string or_undefined \<Rightarrow> int or_undefined \<Rightarrow> ExitResult comp" where
  "exitWithForceCrash rt message delay =
     try_catch
       (bind_c (setTimeout rt message delay)
          (\<lambda>_. return_c \<lparr>success = True, strategy = FORCE_CRASH, error = None\<rparr>))
       (\<lambda>e. return_c \<lparr>success = False, strategy = FORCE_CRASH,
                      error = Some (message_or e ''Force crash failed'')\<rparr>)"

subsection \<open>The methods that call them through \<^verbatim>\<open>this\<close>\<close>

text \<open>
  \<^verbatim>\<open>exitGracefully\<close> and \<^verbatim>\<open>exitWithStrategy\<close> reach the leaf handlers as
  \<^verbatim>\<open>this.exitWithBackHandler()\<close>, \<^verbatim>\<open>this.exitWithReload()\<close> and
  \<^verbatim>\<open>this.exitWithForceCrash(...)\<close>, and the try/catch of \<^verbatim>\<open>exitWithStrategy\<close> is written
  against whatever those calls raise. So both are given for any three methods in the place
  of \<^verbatim>\<open>this\<close>; \<open>ExitApp rt\<close> is the class itself, with its own handlers.
\<close>

record methods =
  this_exitWithBackHandler :: "ExitResult comp"
  this_exitWithReload :: "ExitResult comp"
  this_exitWithForceCrash :: "string or_undefined \<Rightarrow> int or_undefined \<Rightarrow> ExitResult comp"

definition ExitApp :: "runtime \<Rightarrow> methods" where
  "ExitApp rt =
     \<lparr>this_exitWithBackHandler = exitWithBackHandler rt,
      this_exitWithReload = exitWithReload rt,
      this_exitWithForceCrash = exitWithForceCrash rt\<rparr>"

text \<open>The second and the final try of \<^verbatim>\<open>exitGracefully\<close>, reached when the first did
  not return.\<close>

definition exitGracefully_fallback :: "methods \<Rightarrow> RequiredExitOptions \<Rightarrow> ExitResult comp" where
  "exitGracefully_fallback this config =
     bind_c (this_exitWithBackHandler this)
       (\<lambda>backHandlerResult.
          if success backHandlerResult then return_c backHandlerResult
          else this_exitWithForceCrash this (errorMessage config) (forceDelay config))"

definition exitGracefully :: "methods \<Rightarrow> RequiredExitOptions \<Rightarrow> ExitResult comp" where
  "exitGracefully this config =
     (if truthy (useReload config)
      then bind_c (this_exitWithReload this)
             (\<lambda>reloadResult.
                if success reloadResult then return_c reloadResult
                else exitGracefully_fallback this config)
      else exitGracefully_fallback this config)"

text \<open>The \<^verbatim>\<open>switch\<close> of \<^verbatim>\<open>exitWithStrategy\<close> and its catch clause.\<close>

definition dispatch :: "methods \<Rightarrow> ExitStrategy \<Rightarrow> RequiredExitOptions \<Rightarrow> ExitResult comp" where
  "dispatch this s config =
     (case s of
        BACK_HANDLER \<Rightarrow> this_exitWithBackHandler this
      | RELOAD \<Rightarrow> this_exitWithReload this
      | FORCE_CRASH \<Rightarrow> this_exitWithForceCrash this (errorMessage config) (forceDelay config)
      | GRACEFUL \<Rightarrow> exitGracefully this config)"

definition catch_all :: "ExitStrategy \<Rightarrow> thrown \<Rightarrow> ExitResult comp" where
  "catch_all s e =
     return_c \<lparr>success = False, strategy = s, error = Some (message_or e ''Unknown error'')\<rparr>"

definition exitWithStrategy_on ::
  "methods \<Rightarrow> ExitStrategy \<Rightarrow> ExitOptions \<Rightarrow> ExitResult comp" where
  "exitWithStrategy_on this s opts =
     (let config = spread defaultOptions opts
      in try_catch (dispatch this s config) (catch_all s))"

definition exit_on :: "methods \<Rightarrow> ExitOptions \<Rightarrow> ExitResult comp" where
  "exit_on this opts =
     (let config = spread defaultOptions opts
      in exitWithStrategy_on this GRACEFUL (as_options config))"

text \<open>The two public entry points of the class.\<close>

definition exitWithStrategy :: "runtime \<Rightarrow> ExitStrategy \<Rightarrow> ExitOptions \<Rightarrow> ExitResult comp" where
  "exitWithStrategy rt = exitWithStrategy_on (ExitApp rt)"

definition exit :: "runtime \<Rightarrow> ExitOptions \<Rightarrow> ExitResult comp" where
  "exit rt = exit_on (ExitApp rt)"

subsection \<open>The capability probes\<close>

definition isBackHandlerSupported :: "runtime \<Rightarrow> bool" where
  "isBackHandlerSupported rt =
     (case BackHandler_exitApp rt of ExitApp_function _ \<Rightarrow> True | ExitApp_not_callable _ \<Rightarrow> False)"

definition isReloadSupported :: "runtime \<Rightarrow> bool" where
  "isReloadSupported rt =
     (Updates_isEnabled rt \<and>
      (case Updates_reloadAsync rt of
         ReloadAsync_function _ \<Rightarrow> True
       | ReloadAsync_not_callable _ \<Rightarrow> False))"

definition getSupportedStrategies :: "runtime \<Rightarrow> ExitStrategy list" where
  "getSupportedStrategies rt =
     (let strategies = [FORCE_CRASH];
          strategies = (if isBackHandlerSupported rt then strategies @ [BACK_HANDLER]
                        else strategies);
          strategies = (if isReloadSupported rt then strategies @ [RELOAD] else strategies)
      in strategies @ [GRACEFUL])"

section \<open>What each handler computes\<close>

text \<open>Each handler catches whatever its body raises, so it is a table from the state of
  the primitive it uses to a result and a changed world.\<close>

lemma exitWithBackHandler_eval:
  "exitWithBackHandler rt w =
     (case BackHandler_exitApp rt of
        ExitApp_not_callable m \<Rightarrow>
          (Returned \<lparr>success = False, strategy = BACK_HANDLER, error = Some m\<rparr>, w)
      | ExitApp_function b \<Rightarrow>
          (case b of
             ExitApp_returns \<Rightarrow>
               (Returned \<lparr>success = True, strategy = BACK_HANDLER, error = None\<rparr>,
                w\<lparr>events := events w @ [ExitApp_called]\<rparr>)
           | ExitApp_throws e \<Rightarrow>
               (Returned \<lparr>success = False, strategy = BACK_HANDLER,
                          error = Some (message_or e ''BackHandler failed'')\<rparr>,
                w\<lparr>events := events w @ [ExitApp_called]\<rparr>)))"
  by (simp add: exitWithBackHandler_def try_catch_def bind_c_def return_c_def call_exitApp_def
      message_or_def split: exitApp_slot.split exitApp_behaviour.split)

lemma exitWithReload_eval:
  "exitWithReload rt w =
     (if Updates_isEnabled rt
      then (case Updates_reloadAsync rt of
              ReloadAsync_not_callable m \<Rightarrow>
                (Returned \<lparr>success = False, strategy = RELOAD, error = Some m\<rparr>, w)
            | ReloadAsync_function b \<Rightarrow>
                (case b of
                   Reload_resolves \<Rightarrow>
                     (Returned \<lparr>success = True, strategy = RELOAD, error = None\<rparr>,
                      w\<lparr>events := events w @ [ReloadAsync_called]\<rparr>)
                 | Reload_rejects e \<Rightarrow>
                     (Returned \<lparr>success = False, strategy = RELOAD,
                                error = Some (message_or e ''Reload failed'')\<rparr>,
                      w\<lparr>events := events w @ [ReloadAsync_called]\<rparr>)
                 | Reload_throws e \<Rightarrow>
                     (Returned \<lparr>success = False, strategy = RELOAD,
                                error = Some (message_or e ''Reload failed'')\<rparr>,
                      w\<lparr>events := events w @ [ReloadAsync_called]\<rparr>)
                 | Reload_never_settles \<Rightarrow>
                     (Pending, w\<lparr>events := events w @ [ReloadAsync_called]\<rparr>)))
      else (Returned \<lparr>success = False, strategy = RELOAD,
                      error = Some ''Updates not enabled''\<rparr>, w))"
  by (simp add: exitWithReload_def try_catch_def bind_c_def return_c_def await_reloadAsync_def
      message_or_def split: reloadAsync_slot.split reloadAsync_behaviour.split)

lemma exitWithForceCrash_eval:
  "exitWithForceCrash rt message delay w =
     (case setTimeout_throws rt of
        None \<Rightarrow>
          (Returned \<lparr>success = True, strategy = FORCE_CRASH, error = None\<rparr>,
           w\<lparr>timers := timers w @ [(delay, message)]\<rparr>)
      | Some e \<Rightarrow>
          (Returned \<lparr>success = False, strategy = FORCE_CRASH,
                     error = Some (message_or e ''Force crash failed'')\<rparr>, w))"
  by (simp add: exitWithForceCrash_def try_catch_def bind_c_def return_c_def setTimeout_def
      split: option.split)

lemma spread_as_options: "spread d (as_options c) = c"
  by (simp add: spread_def as_options_def)

lemmas handler_tables =
  exitWithBackHandler_eval exitWithReload_eval exitWithForceCrash_eval

lemmas entry_defs =
  exit_def exit_on_def exitWithStrategy_def exitWithStrategy_on_def ExitApp_def Let_def
  dispatch_def try_catch_def catch_all_def exitGracefully_def exitGracefully_fallback_def
  bind_c_def return_c_def

text \<open>The handlers of the class never raise, so its catch clause is not reached and an
  entry point does what the selected method does.\<close>

lemma own_dispatch_never_raises: "fst (dispatch (ExitApp rt) s config w) \<noteq> Raised e"
  by (cases s)
    (auto simp add: dispatch_def ExitApp_def exitGracefully_def exitGracefully_fallback_def
      bind_c_def return_c_def handler_tables
      split: exitApp_slot.split exitApp_behaviour.split reloadAsync_slot.split
        reloadAsync_behaviour.split option.split)

lemma try_catch_no_raise: "\<forall>e. fst (m w) \<noteq> Raised e \<Longrightarrow> try_catch m h w = m w"
  by (cases "m w") (auto simp add: try_catch_def split: outcome.split)

lemma exitWithStrategy_is_dispatch:
  "exitWithStrategy rt s opts w = dispatch (ExitApp rt) s (spread defaultOptions opts) w"
  by (simp add: exitWithStrategy_def exitWithStrategy_on_def Let_def try_catch_no_raise
      own_dispatch_never_raises)

lemma exit_on_is_graceful: "exit_on this opts = exitWithStrategy_on this GRACEFUL opts"
  by (simp add: exit_on_def Let_def exitWithStrategy_on_def spread_as_options)

lemma graceful_is_chain:
  "exitWithStrategy rt GRACEFUL opts w =
     exitGracefully (ExitApp rt) (spread defaultOptions opts) w"
  by (simp add: exitWithStrategy_is_dispatch dispatch_def)

text \<open>The label of a leaf result, and the two ways the chain can return.\<close>

lemma exitWithReload_label: "exitWithReload rt w = (Returned r, w') \<Longrightarrow> strategy r = RELOAD"
  by (auto simp add: exitWithReload_eval
      split: if_splits reloadAsync_slot.splits reloadAsync_behaviour.splits)

lemma exitWithBackHandler_label:
  "exitWithBackHandler rt w = (Returned r, w') \<Longrightarrow> strategy r = BACK_HANDLER"
  by (auto simp add: exitWithBackHandler_eval split: exitApp_slot.splits exitApp_behaviour.splits)

lemma exitWithForceCrash_label:
  "exitWithForceCrash rt message delay w = (Returned r, w') \<Longrightarrow> strategy r = FORCE_CRASH"
  by (auto simp add: exitWithForceCrash_eval split: option.splits)

lemma exitWithBackHandler_returns: "\<exists>r w'. exitWithBackHandler rt w = (Returned r, w')"
  by (simp add: exitWithBackHandler_eval split: exitApp_slot.split exitApp_behaviour.split)

lemma fallback_cases:
  assumes "exitGracefully_fallback (ExitApp rt) config w1 = (Returned r, w')"
  shows "(strategy r = BACK_HANDLER \<and> success r
            \<and> exitWithBackHandler rt w1 = (Returned r, w'))
         \<or> (strategy r = FORCE_CRASH
            \<and> exitWithForceCrash rt (errorMessage config) (forceDelay config)
                 (snd (exitWithBackHandler rt w1)) = (Returned r, w'))"
proof -
  obtain rb w2 where b: "exitWithBackHandler rt w1 = (Returned rb, w2)"
    using exitWithBackHandler_returns by blast
  show ?thesis
  proof (cases "success rb")
    case True
    with assms b have "r = rb" and "w' = w2"
      by (simp_all add: exitGracefully_fallback_def ExitApp_def bind_c_def return_c_def)
    with True b show ?thesis
      using exitWithBackHandler_label by blast
  next
    case False
    with assms b have
      c: "exitWithForceCrash rt (errorMessage config) (forceDelay config) w2 = (Returned r, w')"
      by (simp add: exitGracefully_fallback_def ExitApp_def bind_c_def)
    then have "strategy r = FORCE_CRASH"
      by (rule exitWithForceCrash_label)
    with b c show ?thesis by simp
  qed
qed

lemma chain_cases:
  assumes "exitGracefully (ExitApp rt) config w = (Returned r, w')"
  shows "(truthy (useReload config) \<and> strategy r = RELOAD \<and> success r
            \<and> exitWithReload rt w = (Returned r, w'))
         \<or> exitGracefully_fallback (ExitApp rt) config
              (if truthy (useReload config) then snd (exitWithReload rt w) else w) =
            (Returned r, w')"
proof (cases "truthy (useReload config)")
  case False
  with assms show ?thesis by (simp add: exitGracefully_def)
next
  case True
  obtain o1 w1 where rl: "exitWithReload rt w = (o1, w1)"
    by (cases "exitWithReload rt w")
  show ?thesis
  proof (cases o1)
    case (Returned rr)
    show ?thesis
    proof (cases "success rr")
      case True
      with assms \<open>truthy (useReload config)\<close> rl Returned have "r = rr" and "w' = w1"
        by (simp_all add: exitGracefully_def ExitApp_def bind_c_def return_c_def)
      with True \<open>truthy (useReload config)\<close> rl Returned show ?thesis
        using exitWithReload_label by blast
    next
      case False
      with assms \<open>truthy (useReload config)\<close> rl Returned show ?thesis
        by (simp add: exitGracefully_def ExitApp_def bind_c_def)
    qed
  next
    case (Raised e)
    with assms True rl show ?thesis
      by (simp add: exitGracefully_def ExitApp_def bind_c_def)
  next
    case Pending
    with assms True rl show ?thesis
      by (simp add: exitGracefully_def ExitApp_def bind_c_def)
  qed
qed

section \<open>The claims\<close>

text \<open>
  C1, as amended. \<^verbatim>\<open>exitWithStrategy\<close> never raises, for any strategy, options and world,
  whatever the methods it calls do: when the method it selects raises, the result is the
  failure that carries the requested strategy and the message of the exception, or
  "Unknown error" for a value that carries none; when the method returns, its result is
  passed on. The handlers of the class itself never raise. With them, the call returns an
  \<^verbatim>\<open>ExitResult\<close> in every case but one: the strategy awaits the reload primitive
  (\<^verbatim>\<open>RELOAD\<close>, or \<^verbatim>\<open>GRACEFUL\<close> with a truthy merged \<^verbatim>\<open>useReload\<close>), updates report
  themselves enabled and the promise of \<^verbatim>\<open>reloadAsync\<close> never settles; then the call
  stays pending.
\<close>

theorem exitWithStrategy_contains_errors:
  "(\<forall>e. fst (exitWithStrategy_on this s opts w) \<noteq> Raised e)
   \<and> (\<forall>e w'. this_exitWithBackHandler this w = (Raised e, w') \<longrightarrow>
         exitWithStrategy_on this BACK_HANDLER opts w =
           (Returned \<lparr>success = False, strategy = BACK_HANDLER,
                      error = Some (case e of Error_instance m \<Rightarrow> m | Non_Error \<Rightarrow> ''Unknown error'')\<rparr>, w'))
   \<and> (\<forall>e w'. this_exitWithReload this w = (Raised e, w') \<longrightarrow>
         exitWithStrategy_on this RELOAD opts w =
           (Returned \<lparr>success = False, strategy = RELOAD,
                      error = Some (case e of Error_instance m \<Rightarrow> m | Non_Error \<Rightarrow> ''Unknown error'')\<rparr>, w'))
   \<and> (\<forall>e w'. this_exitWithForceCrash this (errorMessage (spread defaultOptions opts))
                (forceDelay (spread defaultOptions opts)) w = (Raised e, w') \<longrightarrow>
         exitWithStrategy_on this FORCE_CRASH opts w =
           (Returned \<lparr>success = False, strategy = FORCE_CRASH,
                      error = Some (case e of Error_instance m \<Rightarrow> m | Non_Error \<Rightarrow> ''Unknown error'')\<rparr>, w'))
   \<and> (\<forall>e w'. exitGracefully this (spread defaultOptions opts) w = (Raised e, w') \<longrightarrow>
         exitWithStrategy_on this GRACEFUL opts w =
           (Returned \<lparr>success = False, strategy = GRACEFUL,
                      error = Some (case e of Error_instance m \<Rightarrow> m | Non_Error \<Rightarrow> ''Unknown error'')\<rparr>, w'))
   \<and> (\<forall>x w'. dispatch this s (spread defaultOptions opts) w = (Returned x, w') \<longrightarrow>
         exitWithStrategy_on this s opts w = (Returned x, w'))
   \<and> (\<forall>e. fst (dispatch (ExitApp rt) s (spread defaultOptions opts) w) \<noteq> Raised e)
   \<and> (\<forall>e. fst (exitWithStrategy rt s opts w) \<noteq> Raised e)
   \<and> ((\<exists>x. fst (exitWithStrategy rt s opts w) = Returned x) =
       (\<not> (Updates_isEnabled rt
            \<and> Updates_reloadAsync rt = ReloadAsync_function Reload_never_settles
            \<and> (s = RELOAD \<or> s = GRACEFUL \<and> truthy (useReload (spread defaultOptions opts))))))"
proof (intro conjI)
  show never: "\<forall>e. fst (exitWithStrategy_on this s opts w) \<noteq> Raised e" for this
    by (simp add: exitWithStrategy_on_def Let_def try_catch_def catch_all_def return_c_def
        split: prod.split outcome.split)
  then show "\<forall>e. fst (exitWithStrategy rt s opts w) \<noteq> Raised e"
    by (simp add: exitWithStrategy_def)
  show "\<forall>e w'. this_exitWithBackHandler this w = (Raised e, w') \<longrightarrow>
         exitWithStrategy_on this BACK_HANDLER opts w =
           (Returned \<lparr>success = False, strategy = BACK_HANDLER,
                      error = Some (case e of Error_instance m \<Rightarrow> m | Non_Error \<Rightarrow> ''Unknown error'')\<rparr>, w')"
    by (simp add: exitWithStrategy_on_def Let_def dispatch_def try_catch_def catch_all_def
        return_c_def message_or_def)
  show "\<forall>e w'. this_exitWithReload this w = (Raised e, w') \<longrightarrow>
         exitWithStrategy_on this RELOAD opts w =
           (Returned \<lparr>success = False, strategy = RELOAD,
                      error = Some (case e of Error_instance m \<Rightarrow> m | Non_Error \<Rightarrow> ''Unknown error'')\<rparr>, w')"
    by (simp add: exitWithStrategy_on_def Let_def dispatch_def try_catch_def catch_all_def
        return_c_def message_or_def)
  show "\<forall>e w'. this_exitWithForceCrash this (errorMessage (spread defaultOptions opts))
                (forceDelay (spread defaultOptions opts)) w = (Raised e, w') \<longrightarrow>
         exitWithStrategy_on this FORCE_CRASH opts w =
           (Returned \<lparr>success = False, strategy = FORCE_CRASH,
                      error = Some (case e of Error_instance m \<Rightarrow> m | Non_Error \<Rightarrow> ''Unknown error'')\<rparr>, w')"
    by (simp add: exitWithStrategy_on_def Let_def dispatch_def try_catch_def catch_all_def
        return_c_def message_or_def)
  show "\<forall>e w'. exitGracefully this (spread defaultOptions opts) w = (Raised e, w') \<longrightarrow>
         exitWithStrategy_on this GRACEFUL opts w =
           (Returned \<lparr>success = False, strategy = GRACEFUL,
                      error = Some (case e of Error_instance m \<Rightarrow> m | Non_Error \<Rightarrow> ''Unknown error'')\<rparr>, w')"
    by (simp add: exitWithStrategy_on_def Let_def dispatch_def try_catch_def catch_all_def
        return_c_def message_or_def)
  show "\<forall>x w'. dispatch this s (spread defaultOptions opts) w = (Returned x, w') \<longrightarrow>
         exitWithStrategy_on this s opts w = (Returned x, w')"
    by (simp add: exitWithStrategy_on_def Let_def try_catch_def)
  show "\<forall>e. fst (dispatch (ExitApp rt) s (spread defaultOptions opts) w) \<noteq> Raised e"
    by (cases s)
      (auto simp add: dispatch_def ExitApp_def exitGracefully_def exitGracefully_fallback_def
        bind_c_def return_c_def handler_tables
        split: exitApp_slot.split exitApp_behaviour.split reloadAsync_slot.split
          reloadAsync_behaviour.split option.split)
  show "(\<exists>x. fst (exitWithStrategy rt s opts w) = Returned x) =
       (\<not> (Updates_isEnabled rt
            \<and> Updates_reloadAsync rt = ReloadAsync_function Reload_never_settles
            \<and> (s = RELOAD \<or> s = GRACEFUL \<and> truthy (useReload (spread defaultOptions opts)))))"
    by (cases s)
      (auto simp add: entry_defs handler_tables
        split: exitApp_slot.split exitApp_behaviour.split reloadAsync_slot.split
          reloadAsync_behaviour.split option.split)
qed

theorem exitWithStrategy_contains_errors_witness:
  "this_exitWithBackHandler
      ((ExitApp
      \<lparr>BackHandler_exitApp = ExitApp_function ExitApp_returns, Updates_isEnabled = True,
       Updates_reloadAsync = ReloadAsync_function Reload_resolves,
       setTimeout_throws = None, ErrorUtils_reportFatalError = True\<rparr>)
      \<lparr>this_exitWithBackHandler := raise_c (Error_instance ''boom'')\<rparr>)
      \<lparr>events = [], timers = []\<rparr> =
     (Raised (Error_instance ''boom''), \<lparr>events = [], timers = []\<rparr>)
   \<and> exitWithStrategy_on
      ((ExitApp
      \<lparr>BackHandler_exitApp = ExitApp_function ExitApp_returns, Updates_isEnabled = True,
       Updates_reloadAsync = ReloadAsync_function Reload_resolves,
       setTimeout_throws = None, ErrorUtils_reportFatalError = True\<rparr>)
      \<lparr>this_exitWithBackHandler := raise_c (Error_instance ''boom'')\<rparr>)
      BACK_HANDLER \<lparr>errorMessage_opt = None, useReload_opt = None, forceDelay_opt = None\<rparr>
      \<lparr>events = [], timers = []\<rparr> =
     (Returned \<lparr>success = False, strategy = BACK_HANDLER, error = Some ''boom''\<rparr>,
      \<lparr>events = [], timers = []\<rparr>)
   \<and> exitGracefully
      ((ExitApp
      \<lparr>BackHandler_exitApp = ExitApp_function ExitApp_returns, Updates_isEnabled = True,
       Updates_reloadAsync = ReloadAsync_function Reload_resolves,
       setTimeout_throws = None, ErrorUtils_reportFatalError = True\<rparr>)
      \<lparr>this_exitWithReload := raise_c Non_Error\<rparr>)
      (spread defaultOptions \<lparr>errorMessage_opt = None, useReload_opt = None, forceDelay_opt = None\<rparr>)
      \<lparr>events = [], timers = []\<rparr> =
     (Raised Non_Error, \<lparr>events = [], timers = []\<rparr>)
   \<and> exitWithStrategy_on
      ((ExitApp
      \<lparr>BackHandler_exitApp = ExitApp_function ExitApp_returns, Updates_isEnabled = True,
       Updates_reloadAsync = ReloadAsync_function Reload_resolves,
       setTimeout_throws = None, ErrorUtils_reportFatalError = True\<rparr>)
      \<lparr>this_exitWithReload := raise_c Non_Error\<rparr>)
      GRACEFUL \<lparr>errorMessage_opt = None, useReload_opt = None, forceDelay_opt = None\<rparr>
      \<lparr>events = [], timers = []\<rparr> =
     (Returned \<lparr>success = False, strategy = GRACEFUL, error = Some ''Unknown error''\<rparr>,
      \<lparr>events = [], timers = []\<rparr>)
   \<and> exitWithStrategy
      \<lparr>BackHandler_exitApp = ExitApp_function ExitApp_returns, Updates_isEnabled = True,
       Updates_reloadAsync = ReloadAsync_function Reload_resolves,
       setTimeout_throws = None, ErrorUtils_reportFatalError = True\<rparr>
      BACK_HANDLER \<lparr>errorMessage_opt = None, useReload_opt = None, forceDelay_opt = None\<rparr>
      \<lparr>events = [], timers = []\<rparr> =
     (Returned \<lparr>success = True, strategy = BACK_HANDLER, error = None\<rparr>,
      \<lparr>events = [ExitApp_called], timers = []\<rparr>)"
proof -
  let ?android = "\<lparr>BackHandler_exitApp = ExitApp_function ExitApp_returns, Updates_isEnabled = True,
       Updates_reloadAsync = ReloadAsync_function Reload_resolves,
       setTimeout_throws = None, ErrorUtils_reportFatalError = True\<rparr>"
  let ?none = "\<lparr>errorMessage_opt = None, useReload_opt = None, forceDelay_opt = None\<rparr>"
  let ?w0 = "\<lparr>events = [], timers = []\<rparr>"
  let ?this1 = "(ExitApp ?android)\<lparr>this_exitWithBackHandler := raise_c (Error_instance ''boom'')\<rparr>"
  let ?this2 = "(ExitApp ?android)\<lparr>this_exitWithReload := raise_c Non_Error\<rparr>"
  have boom: "this_exitWithBackHandler ?this1 ?w0 = (Raised (Error_instance ''boom''), ?w0)"
    by (simp add: raise_c_def)
  have other: "exitGracefully ?this2 (spread defaultOptions ?none) ?w0 = (Raised Non_Error, ?w0)"
    by (simp add: exitGracefully_def spread_def defaultOptions_def truthy_def bind_c_def
        raise_c_def)
  have caught: "exitWithStrategy_on ?this1 BACK_HANDLER ?none ?w0 =
      (Returned \<lparr>success = False, strategy = BACK_HANDLER, error = Some ''boom''\<rparr>, ?w0)"
    using exitWithStrategy_contains_errors
      [where this = ?this1 and opts = ?none and w = ?w0,
        THEN conjunct2, THEN conjunct1, rule_format, OF boom]
    by simp
  have unknown: "exitWithStrategy_on ?this2 GRACEFUL ?none ?w0 =
      (Returned \<lparr>success = False, strategy = GRACEFUL, error = Some ''Unknown error''\<rparr>,
       ?w0)"
    using exitWithStrategy_contains_errors
      [where this = ?this2 and opts = ?none and w = ?w0,
        THEN conjunct2, THEN conjunct2, THEN conjunct2, THEN conjunct2, THEN conjunct1,
        rule_format, OF other]
    by simp
  have returned: "exitWithStrategy ?android BACK_HANDLER ?none ?w0 =
      (Returned \<lparr>success = True, strategy = BACK_HANDLER, error = None\<rparr>,
       \<lparr>events = [ExitApp_called], timers = []\<rparr>)"
    by (simp add: entry_defs exitWithBackHandler_eval)
  from boom other caught unknown returned show ?thesis by (intro conjI)
qed

text \<open>
  C1 as stated fails: with updates enabled and a \<^verbatim>\<open>reloadAsync\<close> whose promise never
  settles, \<^verbatim>\<open>exitWithStrategy\<close> with \<^verbatim>\<open>RELOAD\<close> yields no \<^verbatim>\<open>ExitResult\<close>.
\<close>

theorem exitWithStrategy_pending_counterexample:
  "fst (exitWithStrategy
      \<lparr>BackHandler_exitApp = ExitApp_function ExitApp_returns, Updates_isEnabled = True,
       Updates_reloadAsync = ReloadAsync_function Reload_never_settles,
       setTimeout_throws = None, ErrorUtils_reportFatalError = True\<rparr>
      RELOAD \<lparr>errorMessage_opt = None, useReload_opt = None, forceDelay_opt = None\<rparr>
      \<lparr>events = [], timers = []\<rparr>) = Pending"
  by (simp add: entry_defs handler_tables)

text \<open>
  C2. The graceful chain runs reload, then the back handler, then the forced crash, and
  stops at the first success. When the merged \<^verbatim>\<open>useReload\<close> is true and the reload
  attempt succeeds, its result and its world are those of the whole call: only
  \<^verbatim>\<open>reloadAsync\<close> ran and no timer was queued. When reload is skipped or failed and
  the back handler succeeds, its result is returned and no timer is queued. When reload is
  skipped or failed and the back handler fails, the call is the forced crash run from
  there, which is a success with strategy \<^verbatim>\<open>FORCE_CRASH\<close> whenever scheduling does not
  throw.
\<close>

theorem exitGracefully_chain:
  "(truthy (useReload (spread defaultOptions opts)) \<and> exitWithReload rt w = (Returned r, w')
      \<and> success r \<longrightarrow>
      exitWithStrategy rt GRACEFUL opts w = (Returned r, w')
      \<and> r = \<lparr>success = True, strategy = RELOAD, error = None\<rparr>
      \<and> events w' = events w @ [ReloadAsync_called] \<and> timers w' = timers w)
   \<and> ((\<not> truthy (useReload (spread defaultOptions opts)) \<and> w1 = w
        \<or> truthy (useReload (spread defaultOptions opts))
          \<and> exitWithReload rt w = (Returned r1, w1) \<and> \<not> success r1)
      \<and> exitWithBackHandler rt w1 = (Returned r2, w2) \<and> success r2 \<longrightarrow>
      exitWithStrategy rt GRACEFUL opts w = (Returned r2, w2)
      \<and> timers w2 = timers w)
   \<and> ((\<not> truthy (useReload (spread defaultOptions opts)) \<and> w1 = w
        \<or> truthy (useReload (spread defaultOptions opts))
          \<and> exitWithReload rt w = (Returned r1, w1) \<and> \<not> success r1)
      \<and> exitWithBackHandler rt w1 = (Returned r3, w3) \<and> \<not> success r3 \<longrightarrow>
      exitWithStrategy rt GRACEFUL opts w =
        exitWithForceCrash rt (errorMessage (spread defaultOptions opts))
          (forceDelay (spread defaultOptions opts)) w3
      \<and> (setTimeout_throws rt = None \<longrightarrow>
           exitWithStrategy rt GRACEFUL opts w =
             (Returned \<lparr>success = True, strategy = FORCE_CRASH, error = None\<rparr>,
              w3\<lparr>timers := timers w3 @ [(forceDelay (spread defaultOptions opts),
                                         errorMessage (spread defaultOptions opts))]\<rparr>)))"
proof (intro conjI impI)
  assume a: "truthy (useReload (spread defaultOptions opts)) \<and> exitWithReload rt w = (Returned r, w')
      \<and> success r"
  then show "exitWithStrategy rt GRACEFUL opts w = (Returned r, w')"
    by (simp add: graceful_is_chain exitGracefully_def exitGracefully_fallback_def
        ExitApp_def bind_c_def return_c_def)
  from a show "r = \<lparr>success = True, strategy = RELOAD, error = None\<rparr>"
    by (auto simp add: exitWithReload_eval split: if_splits reloadAsync_slot.splits
        reloadAsync_behaviour.splits)
  from a show "events w' = events w @ [ReloadAsync_called]"
    by (auto simp add: exitWithReload_eval split: if_splits reloadAsync_slot.splits
        reloadAsync_behaviour.splits)
  from a show "timers w' = timers w"
    by (auto simp add: exitWithReload_eval split: if_splits reloadAsync_slot.splits
        reloadAsync_behaviour.splits)
next
  assume a: "(\<not> truthy (useReload (spread defaultOptions opts)) \<and> w1 = w
        \<or> truthy (useReload (spread defaultOptions opts))
          \<and> exitWithReload rt w = (Returned r1, w1) \<and> \<not> success r1)
      \<and> exitWithBackHandler rt w1 = (Returned r2, w2) \<and> success r2"
  then show "exitWithStrategy rt GRACEFUL opts w = (Returned r2, w2)"
    by (auto simp add: graceful_is_chain exitGracefully_def exitGracefully_fallback_def
        ExitApp_def bind_c_def return_c_def)
  from a have "timers w1 = timers w"
    by (auto simp add: exitWithReload_eval split: if_splits reloadAsync_slot.splits
        reloadAsync_behaviour.splits)
  moreover from a have "timers w2 = timers w1"
    by (auto simp add: exitWithBackHandler_eval split: exitApp_slot.splits
        exitApp_behaviour.splits)
  ultimately show "timers w2 = timers w" by simp
next
  assume a: "(\<not> truthy (useReload (spread defaultOptions opts)) \<and> w1 = w
        \<or> truthy (useReload (spread defaultOptions opts))
          \<and> exitWithReload rt w = (Returned r1, w1) \<and> \<not> success r1)
      \<and> exitWithBackHandler rt w1 = (Returned r3, w3) \<and> \<not> success r3"
  then show g: "exitWithStrategy rt GRACEFUL opts w =
        exitWithForceCrash rt (errorMessage (spread defaultOptions opts))
          (forceDelay (spread defaultOptions opts)) w3"
    by (auto simp add: graceful_is_chain exitGracefully_def exitGracefully_fallback_def
        ExitApp_def bind_c_def return_c_def)
  assume "setTimeout_throws rt = None"
  then show "exitWithStrategy rt GRACEFUL opts w =
             (Returned \<lparr>success = True, strategy = FORCE_CRASH, error = None\<rparr>,
              w3\<lparr>timers := timers w3 @ [(forceDelay (spread defaultOptions opts),
                                         errorMessage (spread defaultOptions opts))]\<rparr>)"
    by (simp add: g exitWithForceCrash_eval)
qed

theorem exitGracefully_chain_witness:
  "truthy (useReload (spread defaultOptions \<lparr>errorMessage_opt = None, useReload_opt = None, forceDelay_opt = None\<rparr>))
   \<and> exitWithReload
      \<lparr>BackHandler_exitApp = ExitApp_function ExitApp_returns, Updates_isEnabled = True,
       Updates_reloadAsync = ReloadAsync_function Reload_resolves,
       setTimeout_throws = None, ErrorUtils_reportFatalError = True\<rparr>
      \<lparr>events = [], timers = []\<rparr> =
     (Returned \<lparr>success = True, strategy = RELOAD, error = None\<rparr>,
      \<lparr>events = [ReloadAsync_called], timers = []\<rparr>)
   \<and> exitWithStrategy
      \<lparr>BackHandler_exitApp = ExitApp_function ExitApp_returns, Updates_isEnabled = True,
       Updates_reloadAsync = ReloadAsync_function Reload_resolves,
       setTimeout_throws = None, ErrorUtils_reportFatalError = True\<rparr>
      GRACEFUL \<lparr>errorMessage_opt = None, useReload_opt = None, forceDelay_opt = None\<rparr>
      \<lparr>events = [], timers = []\<rparr> =
     (Returned \<lparr>success = True, strategy = RELOAD, error = None\<rparr>,
      \<lparr>events = [ReloadAsync_called], timers = []\<rparr>)
   \<and> \<not> truthy (useReload (spread defaultOptions \<lparr>errorMessage_opt = None, useReload_opt = Some (Defined False), forceDelay_opt = None\<rparr>))
   \<and> exitWithStrategy
      \<lparr>BackHandler_exitApp = ExitApp_function ExitApp_returns, Updates_isEnabled = True,
       Updates_reloadAsync = ReloadAsync_function Reload_resolves,
       setTimeout_throws = None, ErrorUtils_reportFatalError = True\<rparr>
      GRACEFUL \<lparr>errorMessage_opt = None, useReload_opt = Some (Defined False), forceDelay_opt = None\<rparr>
      \<lparr>events = [], timers = []\<rparr> =
     (Returned \<lparr>success = True, strategy = BACK_HANDLER, error = None\<rparr>,
      \<lparr>events = [ExitApp_called], timers = []\<rparr>)
   \<and> exitWithReload
      \<lparr>BackHandler_exitApp = ExitApp_not_callable ''exitApp is not a function'', Updates_isEnabled = True,
       Updates_reloadAsync = ReloadAsync_function (Reload_rejects (Error_instance ''offline'')),
       setTimeout_throws = None, ErrorUtils_reportFatalError = True\<rparr>
      \<lparr>events = [], timers = []\<rparr> =
     (Returned \<lparr>success = False, strategy = RELOAD, error = Some ''offline''\<rparr>,
      \<lparr>events = [ReloadAsync_called], timers = []\<rparr>)
   \<and> exitWithBackHandler
      \<lparr>BackHandler_exitApp = ExitApp_not_callable ''exitApp is not a function'', Updates_isEnabled = True,
       Updates_reloadAsync = ReloadAsync_function (Reload_rejects (Error_instance ''offline'')),
       setTimeout_throws = None, ErrorUtils_reportFatalError = True\<rparr>
      \<lparr>events = [ReloadAsync_called], timers = []\<rparr> =
     (Returned \<lparr>success = False, strategy = BACK_HANDLER, error = Some ''exitApp is not a function''\<rparr>,
      \<lparr>events = [ReloadAsync_called], timers = []\<rparr>)
   \<and> exitWithStrategy
      \<lparr>BackHandler_exitApp = ExitApp_not_callable ''exitApp is not a function'', Updates_isEnabled = True,
       Updates_reloadAsync = ReloadAsync_function (Reload_rejects (Error_instance ''offline'')),
       setTimeout_throws = None, ErrorUtils_reportFatalError = True\<rparr>
      GRACEFUL \<lparr>errorMessage_opt = None, useReload_opt = None, forceDelay_opt = None\<rparr>
      \<lparr>events = [], timers = []\<rparr> =
     (Returned \<lparr>success = True, strategy = FORCE_CRASH, error = None\<rparr>,
      \<lparr>events = [ReloadAsync_called], timers = [(Defined 100, Defined ''App terminated'')]\<rparr>)"
proof -
  let ?android = "\<lparr>BackHandler_exitApp = ExitApp_function ExitApp_returns, Updates_isEnabled = True,
       Updates_reloadAsync = ReloadAsync_function Reload_resolves,
       setTimeout_throws = None, ErrorUtils_reportFatalError = True\<rparr>"
  let ?rejecting = "\<lparr>BackHandler_exitApp = ExitApp_not_callable ''exitApp is not a function'', Updates_isEnabled = True,
       Updates_reloadAsync = ReloadAsync_function (Reload_rejects (Error_instance ''offline'')),
       setTimeout_throws = None, ErrorUtils_reportFatalError = True\<rparr>"
  let ?none = "\<lparr>errorMessage_opt = None, useReload_opt = None, forceDelay_opt = None\<rparr>"
  let ?no_reload = "\<lparr>errorMessage_opt = None, useReload_opt = Some (Defined False), forceDelay_opt = None\<rparr>"
  let ?w0 = "\<lparr>events = [], timers = []\<rparr>"
  let ?reloaded = "\<lparr>events = [ReloadAsync_called], timers = []\<rparr>"
  have use: "truthy (useReload (spread defaultOptions ?none))"
    and no_use: "\<not> truthy (useReload (spread defaultOptions ?no_reload))"
    by (simp_all add: spread_def defaultOptions_def truthy_def)
  have reload_ok: "exitWithReload ?android ?w0 =
      (Returned \<lparr>success = True, strategy = RELOAD, error = None\<rparr>, ?reloaded)"
    by (simp add: exitWithReload_eval)
  have back_ok: "exitWithBackHandler ?android ?w0 =
      (Returned \<lparr>success = True, strategy = BACK_HANDLER, error = None\<rparr>,
       \<lparr>events = [ExitApp_called], timers = []\<rparr>)"
    by (simp add: exitWithBackHandler_eval)
  have reload_fails: "exitWithReload ?rejecting ?w0 =
      (Returned \<lparr>success = False, strategy = RELOAD, error = Some ''offline''\<rparr>, ?reloaded)"
    by (simp add: exitWithReload_eval message_or_def)
  have back_fails: "exitWithBackHandler ?rejecting ?reloaded =
      (Returned \<lparr>success = False, strategy = BACK_HANDLER, error = Some ''exitApp is not a function''\<rparr>,
       ?reloaded)"
    by (simp add: exitWithBackHandler_eval)
  have first: "exitWithStrategy ?android GRACEFUL ?none ?w0 =
      (Returned \<lparr>success = True, strategy = RELOAD, error = None\<rparr>, ?reloaded)"
    using exitGracefully_chain [where rt = ?android and opts = ?none and w = ?w0
        and r = "\<lparr>success = True, strategy = RELOAD, error = None\<rparr>"
        and w' = ?reloaded]
      use reload_ok
    by simp
  have second: "exitWithStrategy ?android GRACEFUL ?no_reload ?w0 =
      (Returned \<lparr>success = True, strategy = BACK_HANDLER, error = None\<rparr>,
       \<lparr>events = [ExitApp_called], timers = []\<rparr>)"
    using exitGracefully_chain [where rt = ?android and opts = ?no_reload and w = ?w0
        and ?w1.0 = ?w0
        and ?r2.0 = "\<lparr>success = True, strategy = BACK_HANDLER, error = None\<rparr>"
        and ?w2.0 = "\<lparr>events = [ExitApp_called], timers = []\<rparr>"]
      no_use back_ok
    by simp
  have third: "exitWithStrategy ?rejecting GRACEFUL ?none ?w0 =
      (Returned \<lparr>success = True, strategy = FORCE_CRASH, error = None\<rparr>,
       \<lparr>events = [ReloadAsync_called], timers = [(Defined 100, Defined ''App terminated'')]\<rparr>)"
    using exitGracefully_chain [where rt = ?rejecting and opts = ?none and w = ?w0
        and ?r1.0 = "\<lparr>success = False, strategy = RELOAD, error = Some ''offline''\<rparr>"
        and ?w1.0 = ?reloaded
        and ?r3.0 = "\<lparr>success = False, strategy = BACK_HANDLER, error = Some ''exitApp is not a function''\<rparr>"
        and ?w3.0 = ?reloaded]
      use reload_fails back_fails
    by (simp add: spread_def defaultOptions_def exitWithForceCrash_eval)
  from use no_use reload_ok reload_fails back_fails first second third
  show ?thesis by (intro conjI)
qed

text \<open>
  C3, as amended. Whenever \<^verbatim>\<open>isReloadSupported\<close> is false, \<^verbatim>\<open>exitWithStrategy\<close> with
  \<^verbatim>\<open>RELOAD\<close> returns a failure with strategy \<^verbatim>\<open>RELOAD\<close> and leaves the world
  unchanged (no primitive ran). The error is "Updates not enabled" when updates do not
  report themselves enabled; when they do and \<^verbatim>\<open>reloadAsync\<close> is not callable, the
  error is the message of the \<^verbatim>\<open>TypeError\<close> raised by the attempted call.
\<close>

theorem exitWithReload_unsupported:
  "\<not> isReloadSupported rt \<Longrightarrow>
     \<exists>m. exitWithStrategy rt RELOAD opts w =
           (Returned \<lparr>success = False, strategy = RELOAD, error = Some m\<rparr>, w)
       \<and> (if Updates_isEnabled rt then Updates_reloadAsync rt = ReloadAsync_not_callable m
          else m = ''Updates not enabled'')"
  by (cases "Updates_reloadAsync rt")
    (simp_all add: isReloadSupported_def exitWithStrategy_is_dispatch dispatch_def ExitApp_def
      exitWithReload_eval)

theorem exitWithReload_unsupported_witness:
  "\<not> isReloadSupported
      \<lparr>BackHandler_exitApp = ExitApp_not_callable ''exitApp is not a function'', Updates_isEnabled = False,
       Updates_reloadAsync = ReloadAsync_not_callable ''null is not a function'',
       setTimeout_throws = None, ErrorUtils_reportFatalError = False\<rparr>
   \<and> exitWithStrategy
      \<lparr>BackHandler_exitApp = ExitApp_not_callable ''exitApp is not a function'', Updates_isEnabled = False,
       Updates_reloadAsync = ReloadAsync_not_callable ''null is not a function'',
       setTimeout_throws = None, ErrorUtils_reportFatalError = False\<rparr>
      RELOAD \<lparr>errorMessage_opt = None, useReload_opt = None, forceDelay_opt = None\<rparr>
      \<lparr>events = [], timers = []\<rparr> =
     (Returned \<lparr>success = False, strategy = RELOAD, error = Some ''Updates not enabled''\<rparr>,
      \<lparr>events = [], timers = []\<rparr>)
   \<and> \<not> isReloadSupported
      \<lparr>BackHandler_exitApp = ExitApp_function ExitApp_returns, Updates_isEnabled = True,
       Updates_reloadAsync = ReloadAsync_not_callable ''Updates.reloadAsync is not a function'',
       setTimeout_throws = None, ErrorUtils_reportFatalError = True\<rparr>
   \<and> exitWithStrategy
      \<lparr>BackHandler_exitApp = ExitApp_function ExitApp_returns, Updates_isEnabled = True,
       Updates_reloadAsync = ReloadAsync_not_callable ''Updates.reloadAsync is not a function'',
       setTimeout_throws = None, ErrorUtils_reportFatalError = True\<rparr>
      RELOAD \<lparr>errorMessage_opt = None, useReload_opt = None, forceDelay_opt = None\<rparr>
      \<lparr>events = [], timers = []\<rparr> =
     (Returned \<lparr>success = False, strategy = RELOAD, error = Some ''Updates.reloadAsync is not a function''\<rparr>,
      \<lparr>events = [], timers = []\<rparr>)"
  using exitWithReload_unsupported
    [of "\<lparr>BackHandler_exitApp = ExitApp_not_callable ''exitApp is not a function'', Updates_isEnabled = False,
       Updates_reloadAsync = ReloadAsync_not_callable ''null is not a function'',
       setTimeout_throws = None, ErrorUtils_reportFatalError = False\<rparr>"
       "\<lparr>errorMessage_opt = None, useReload_opt = None, forceDelay_opt = None\<rparr>"
       "\<lparr>events = [], timers = []\<rparr>"]
    exitWithReload_unsupported
    [of "\<lparr>BackHandler_exitApp = ExitApp_function ExitApp_returns, Updates_isEnabled = True,
       Updates_reloadAsync = ReloadAsync_not_callable ''Updates.reloadAsync is not a function'',
       setTimeout_throws = None, ErrorUtils_reportFatalError = True\<rparr>"
       "\<lparr>errorMessage_opt = None, useReload_opt = None, forceDelay_opt = None\<rparr>"
       "\<lparr>events = [], timers = []\<rparr>"]
  by (auto simp add: isReloadSupported_def)

text \<open>
  C3 as stated fails: with updates enabled and \<^verbatim>\<open>reloadAsync\<close> not callable,
  \<^verbatim>\<open>isReloadSupported\<close> is false, yet the error is not "Updates not enabled", since
  \<^verbatim>\<open>exitWithReload\<close> tests \<^verbatim>\<open>Updates.isEnabled\<close> alone.
\<close>

theorem exitWithReload_not_callable_counterexample:
  "\<not> isReloadSupported
      \<lparr>BackHandler_exitApp = ExitApp_function ExitApp_returns, Updates_isEnabled = True,
       Updates_reloadAsync = ReloadAsync_not_callable ''Updates.reloadAsync is not a function'',
       setTimeout_throws = None, ErrorUtils_reportFatalError = True\<rparr>
   \<and> exitWithStrategy
      \<lparr>BackHandler_exitApp = ExitApp_function ExitApp_returns, Updates_isEnabled = True,
       Updates_reloadAsync = ReloadAsync_not_callable ''Updates.reloadAsync is not a function'',
       setTimeout_throws = None, ErrorUtils_reportFatalError = True\<rparr>
      RELOAD \<lparr>errorMessage_opt = None, useReload_opt = None, forceDelay_opt = None\<rparr>
      \<lparr>events = [], timers = []\<rparr> =
     (Returned \<lparr>success = False, strategy = RELOAD, error = Some ''Updates.reloadAsync is not a function''\<rparr>,
      \<lparr>events = [], timers = []\<rparr>)
   \<and> fst (exitWithStrategy
      \<lparr>BackHandler_exitApp = ExitApp_function ExitApp_returns, Updates_isEnabled = True,
       Updates_reloadAsync = ReloadAsync_not_callable ''Updates.reloadAsync is not a function'',
       setTimeout_throws = None, ErrorUtils_reportFatalError = True\<rparr>
      RELOAD \<lparr>errorMessage_opt = None, useReload_opt = None, forceDelay_opt = None\<rparr>
      \<lparr>events = [], timers = []\<rparr>) \<noteq>
     Returned \<lparr>success = False, strategy = RELOAD, error = Some ''Updates not enabled''\<rparr>"
  by (simp add: isReloadSupported_def entry_defs handler_tables)

text \<open>
  C4. For every \<^verbatim>\<open>errorMessage\<close> and \<^verbatim>\<open>forceDelay\<close>, \<^verbatim>\<open>exitWithStrategy\<close> with
  \<^verbatim>\<open>FORCE_CRASH\<close> returns success with strategy \<^verbatim>\<open>FORCE_CRASH\<close> while the timer it
  queued (the merged delay and message) is still pending and no fatal action has happened;
  only a throw of the scheduling step itself gives a failure result. The result does not
  depend on what the callback will do. When the callback runs afterwards it reports, or
  raises, an error carrying the merged \<^verbatim>\<open>errorMessage\<close> (the empty message when that
  is \<^verbatim>\<open>undefined\<close>).
\<close>

theorem exitWithForceCrash_reports_before_firing:
  "exitWithStrategy rt FORCE_CRASH opts w =
     (case setTimeout_throws rt of
        None \<Rightarrow>
          (Returned \<lparr>success = True, strategy = FORCE_CRASH, error = None\<rparr>,
           w\<lparr>timers := timers w @ [(forceDelay (spread defaultOptions opts),
                                     errorMessage (spread defaultOptions opts))]\<rparr>)
      | Some e \<Rightarrow>
          (Returned \<lparr>success = False, strategy = FORCE_CRASH,
                     error = Some (message_or e ''Force crash failed'')\<rparr>, w))
   \<and> events (snd (exitWithStrategy rt FORCE_CRASH opts w)) = events w
   \<and> fst (exitWithStrategy (rt\<lparr>ErrorUtils_reportFatalError := b\<rparr>) FORCE_CRASH opts w) =
       fst (exitWithStrategy rt FORCE_CRASH opts w)
   \<and> crash_callback rt (errorMessage (spread defaultOptions opts))
        (snd (exitWithStrategy rt FORCE_CRASH opts w)) =
       (if ErrorUtils_reportFatalError rt
        then (Returned (),
              (snd (exitWithStrategy rt FORCE_CRASH opts w))
                \<lparr>events := events w @
                   [Fatal_reported
                      (case errorMessage (spread defaultOptions opts) of
                         Undefined \<Rightarrow> [] | Defined m \<Rightarrow> m)]\<rparr>)
        else (Raised (Error_instance
                (case errorMessage (spread defaultOptions opts) of
                   Undefined \<Rightarrow> [] | Defined m \<Rightarrow> m)),
              snd (exitWithStrategy rt FORCE_CRASH opts w)))"
  by (simp add: exitWithStrategy_is_dispatch dispatch_def ExitApp_def exitWithForceCrash_eval
      crash_callback_def new_Error_message_def split: option.split)

text \<open>
  C5. A result returned for a graceful request, through \<^verbatim>\<open>exitWithStrategy\<close> or
  through \<^verbatim>\<open>exit\<close>, is labelled with the leaf that produced it, never with
  \<^verbatim>\<open>GRACEFUL\<close>. A result labelled \<^verbatim>\<open>RELOAD\<close> is the successful result of
  \<^verbatim>\<open>exitWithReload\<close> run first; one labelled \<^verbatim>\<open>BACK_HANDLER\<close> is the successful
  result of \<^verbatim>\<open>exitWithBackHandler\<close> run after the reload step (if any); one labelled
  \<^verbatim>\<open>FORCE_CRASH\<close> is the result of \<^verbatim>\<open>exitWithForceCrash\<close> run after the back
  handler, with the merged message and delay. A failed graceful result is always labelled
  \<^verbatim>\<open>FORCE_CRASH\<close>.
\<close>

theorem exitGracefully_reports_leaf:
  "(exitWithStrategy rt GRACEFUL opts w = (Returned r, w') \<longrightarrow>
      strategy r \<in> {RELOAD, BACK_HANDLER, FORCE_CRASH} \<and> strategy r \<noteq> GRACEFUL
      \<and> (\<not> success r \<longrightarrow> strategy r = FORCE_CRASH)
      \<and> (strategy r = RELOAD \<longrightarrow>
           truthy (useReload (spread defaultOptions opts)) \<and> success r
           \<and> exitWithReload rt w = (Returned r, w'))
      \<and> (strategy r = BACK_HANDLER \<longrightarrow>
           success r
           \<and> exitWithBackHandler rt
               (if truthy (useReload (spread defaultOptions opts))
                then snd (exitWithReload rt w) else w) =
             (Returned r, w'))
      \<and> (strategy r = FORCE_CRASH \<longrightarrow>
           exitWithForceCrash rt (errorMessage (spread defaultOptions opts))
             (forceDelay (spread defaultOptions opts))
             (snd (exitWithBackHandler rt
               (if truthy (useReload (spread defaultOptions opts))
                then snd (exitWithReload rt w) else w))) =
             (Returned r, w')))
   \<and> (exit rt opts w = (Returned r, w') \<longrightarrow>
      strategy r \<in> {RELOAD, BACK_HANDLER, FORCE_CRASH} \<and> strategy r \<noteq> GRACEFUL
      \<and> (\<not> success r \<longrightarrow> strategy r = FORCE_CRASH)
      \<and> (strategy r = RELOAD \<longrightarrow>
           truthy (useReload (spread defaultOptions opts)) \<and> success r
           \<and> exitWithReload rt w = (Returned r, w'))
      \<and> (strategy r = BACK_HANDLER \<longrightarrow>
           success r
           \<and> exitWithBackHandler rt
               (if truthy (useReload (spread defaultOptions opts))
                then snd (exitWithReload rt w) else w) =
             (Returned r, w'))
      \<and> (strategy r = FORCE_CRASH \<longrightarrow>
           exitWithForceCrash rt (errorMessage (spread defaultOptions opts))
             (forceDelay (spread defaultOptions opts))
             (snd (exitWithBackHandler rt
               (if truthy (useReload (spread defaultOptions opts))
                then snd (exitWithReload rt w) else w))) =
             (Returned r, w')))"
proof -
  have same: "exit rt opts w = exitWithStrategy rt GRACEFUL opts w"
    by (simp add: exit_def exitWithStrategy_def exit_on_is_graceful)
  have chain: "exitWithStrategy rt GRACEFUL opts w =
      exitGracefully (ExitApp rt) (spread defaultOptions opts) w"
    by (rule graceful_is_chain)
  have main: "(exitWithStrategy rt GRACEFUL opts w = (Returned r, w') \<longrightarrow>
      strategy r \<in> {RELOAD, BACK_HANDLER, FORCE_CRASH} \<and> strategy r \<noteq> GRACEFUL
      \<and> (\<not> success r \<longrightarrow> strategy r = FORCE_CRASH)
      \<and> (strategy r = RELOAD \<longrightarrow>
           truthy (useReload (spread defaultOptions opts)) \<and> success r
           \<and> exitWithReload rt w = (Returned r, w'))
      \<and> (strategy r = BACK_HANDLER \<longrightarrow>
           success r
           \<and> exitWithBackHandler rt
               (if truthy (useReload (spread defaultOptions opts))
                then snd (exitWithReload rt w) else w) =
             (Returned r, w'))
      \<and> (strategy r = FORCE_CRASH \<longrightarrow>
           exitWithForceCrash rt (errorMessage (spread defaultOptions opts))
             (forceDelay (spread defaultOptions opts))
             (snd (exitWithBackHandler rt
               (if truthy (useReload (spread defaultOptions opts))
                then snd (exitWithReload rt w) else w))) =
             (Returned r, w')))"
  proof
    assume "exitWithStrategy rt GRACEFUL opts w = (Returned r, w')"
    then have g: "exitGracefully (ExitApp rt) (spread defaultOptions opts) w = (Returned r, w')"
      by (simp add: chain)
    from chain_cases [OF g] show "strategy r \<in> {RELOAD, BACK_HANDLER, FORCE_CRASH} \<and> strategy r \<noteq> GRACEFUL
      \<and> (\<not> success r \<longrightarrow> strategy r = FORCE_CRASH)
      \<and> (strategy r = RELOAD \<longrightarrow>
           truthy (useReload (spread defaultOptions opts)) \<and> success r
           \<and> exitWithReload rt w = (Returned r, w'))
      \<and> (strategy r = BACK_HANDLER \<longrightarrow>
           success r
           \<and> exitWithBackHandler rt
               (if truthy (useReload (spread defaultOptions opts))
                then snd (exitWithReload rt w) else w) =
             (Returned r, w'))
      \<and> (strategy r = FORCE_CRASH \<longrightarrow>
           exitWithForceCrash rt (errorMessage (spread defaultOptions opts))
             (forceDelay (spread defaultOptions opts))
             (snd (exitWithBackHandler rt
               (if truthy (useReload (spread defaultOptions opts))
                then snd (exitWithReload rt w) else w))) =
             (Returned r, w'))"
    proof
      assume "truthy (useReload (spread defaultOptions opts)) \<and> strategy r = RELOAD \<and> success r
        \<and> exitWithReload rt w = (Returned r, w')"
      then show ?thesis by simp
    next
      assume "exitGracefully_fallback (ExitApp rt) (spread defaultOptions opts)
          (if truthy (useReload (spread defaultOptions opts))
                then snd (exitWithReload rt w) else w) = (Returned r, w')"
      from fallback_cases [OF this] show ?thesis
      proof
        assume "strategy r = BACK_HANDLER \<and> success r
          \<and> exitWithBackHandler rt
              (if truthy (useReload (spread defaultOptions opts))
                then snd (exitWithReload rt w) else w) = (Returned r, w')"
        then show ?thesis by simp
      next
        assume "strategy r = FORCE_CRASH
          \<and> exitWithForceCrash rt (errorMessage (spread defaultOptions opts))
              (forceDelay (spread defaultOptions opts))
              (snd (exitWithBackHandler rt
                (if truthy (useReload (spread defaultOptions opts))
                then snd (exitWithReload rt w) else w))) = (Returned r, w')"
        then show ?thesis by simp
      qed
    qed
  qed
  show ?thesis unfolding same by (intro conjI) (rule main)+
qed

theorem exitGracefully_reports_leaf_witness:
  "exitWithStrategy
      \<lparr>BackHandler_exitApp = ExitApp_not_callable ''exitApp is not a function'', Updates_isEnabled = False,
       Updates_reloadAsync = ReloadAsync_not_callable ''null is not a function'',
       setTimeout_throws = None, ErrorUtils_reportFatalError = False\<rparr>
      GRACEFUL \<lparr>errorMessage_opt = None, useReload_opt = None, forceDelay_opt = None\<rparr>
      \<lparr>events = [], timers = []\<rparr> =
     (Returned \<lparr>success = True, strategy = FORCE_CRASH, error = None\<rparr>,
      \<lparr>events = [], timers = [(Defined 100, Defined ''App terminated'')]\<rparr>)
   \<and> exit
      \<lparr>BackHandler_exitApp = ExitApp_not_callable ''exitApp is not a function'', Updates_isEnabled = False,
       Updates_reloadAsync = ReloadAsync_not_callable ''null is not a function'',
       setTimeout_throws = None, ErrorUtils_reportFatalError = False\<rparr>
      \<lparr>errorMessage_opt = None, useReload_opt = None, forceDelay_opt = None\<rparr>
      \<lparr>events = [], timers = []\<rparr> =
     (Returned \<lparr>success = True, strategy = FORCE_CRASH, error = None\<rparr>,
      \<lparr>events = [], timers = [(Defined 100, Defined ''App terminated'')]\<rparr>)
   \<and> exitWithForceCrash
      \<lparr>BackHandler_exitApp = ExitApp_not_callable ''exitApp is not a function'', Updates_isEnabled = False,
       Updates_reloadAsync = ReloadAsync_not_callable ''null is not a function'',
       setTimeout_throws = None, ErrorUtils_reportFatalError = False\<rparr>
      (Defined ''App terminated'') (Defined 100)
      (snd (exitWithBackHandler
      \<lparr>BackHandler_exitApp = ExitApp_not_callable ''exitApp is not a function'', Updates_isEnabled = False,
       Updates_reloadAsync = ReloadAsync_not_callable ''null is not a function'',
       setTimeout_throws = None, ErrorUtils_reportFatalError = False\<rparr>
      \<lparr>events = [], timers = []\<rparr>)) =
     (Returned \<lparr>success = True, strategy = FORCE_CRASH, error = None\<rparr>,
      \<lparr>events = [], timers = [(Defined 100, Defined ''App terminated'')]\<rparr>)
   \<and> exitWithStrategy
      \<lparr>BackHandler_exitApp = ExitApp_function ExitApp_returns, Updates_isEnabled = True,
       Updates_reloadAsync = ReloadAsync_function Reload_resolves,
       setTimeout_throws = None, ErrorUtils_reportFatalError = True\<rparr>
      GRACEFUL \<lparr>errorMessage_opt = None, useReload_opt = None, forceDelay_opt = None\<rparr>
      \<lparr>events = [], timers = []\<rparr> =
     (Returned \<lparr>success = True, strategy = RELOAD, error = None\<rparr>,
      \<lparr>events = [ReloadAsync_called], timers = []\<rparr>)
   \<and> exitWithReload
      \<lparr>BackHandler_exitApp = ExitApp_function ExitApp_returns, Updates_isEnabled = True,
       Updates_reloadAsync = ReloadAsync_function Reload_resolves,
       setTimeout_throws = None, ErrorUtils_reportFatalError = True\<rparr>
      \<lparr>events = [], timers = []\<rparr> =
     (Returned \<lparr>success = True, strategy = RELOAD, error = None\<rparr>,
      \<lparr>events = [ReloadAsync_called], timers = []\<rparr>)"
proof -
  let ?web = "\<lparr>BackHandler_exitApp = ExitApp_not_callable ''exitApp is not a function'', Updates_isEnabled = False,
       Updates_reloadAsync = ReloadAsync_not_callable ''null is not a function'',
       setTimeout_throws = None, ErrorUtils_reportFatalError = False\<rparr>"
  let ?android = "\<lparr>BackHandler_exitApp = ExitApp_function ExitApp_returns, Updates_isEnabled = True,
       Updates_reloadAsync = ReloadAsync_function Reload_resolves,
       setTimeout_throws = None, ErrorUtils_reportFatalError = True\<rparr>"
  let ?none = "\<lparr>errorMessage_opt = None, useReload_opt = None, forceDelay_opt = None\<rparr>"
  let ?w0 = "\<lparr>events = [], timers = []\<rparr>"
  let ?crash = "\<lparr>success = True, strategy = FORCE_CRASH, error = None\<rparr>"
  let ?queued = "\<lparr>events = [], timers = [(Defined 100, Defined ''App terminated'')]\<rparr>"
  let ?reload = "\<lparr>success = True, strategy = RELOAD, error = None\<rparr>"
  let ?reloaded = "\<lparr>events = [ReloadAsync_called], timers = []\<rparr>"
  have g1: "exitWithStrategy ?web GRACEFUL ?none ?w0 = (Returned ?crash, ?queued)"
    by (simp add: graceful_is_chain exitGracefully_def exitGracefully_fallback_def ExitApp_def
        bind_c_def return_c_def handler_tables spread_def defaultOptions_def truthy_def)
  have g2: "exit ?web ?none ?w0 = (Returned ?crash, ?queued)"
    using g1 by (simp add: exit_def exitWithStrategy_def exit_on_is_graceful)
  have g3: "exitWithStrategy ?android GRACEFUL ?none ?w0 = (Returned ?reload, ?reloaded)"
    by (simp add: graceful_is_chain exitGracefully_def exitGracefully_fallback_def ExitApp_def
        bind_c_def return_c_def handler_tables spread_def defaultOptions_def truthy_def)
  have l1: "exitWithForceCrash ?web (Defined ''App terminated'') (Defined 100)
      (snd (exitWithBackHandler ?web ?w0)) = (Returned ?crash, ?queued)"
    using exitGracefully_reports_leaf
      [where rt = ?web and opts = ?none and w = ?w0 and r = ?crash and w' = ?queued,
        THEN conjunct1, rule_format, OF g1]
    by (simp add: spread_def defaultOptions_def truthy_def exitWithReload_eval)
  have l2: "exitWithReload ?android ?w0 = (Returned ?reload, ?reloaded)"
    using exitGracefully_reports_leaf
      [where rt = ?android and opts = ?none and w = ?w0 and r = ?reload and w' = ?reloaded,
        THEN conjunct1, rule_format, OF g3]
    by simp
  from g1 g2 l1 g3 l2 show ?thesis by (intro conjI)
qed

text \<open>
  C6, as amended. In every result returned by an entry point or by one of the three
  handlers, the \<^verbatim>\<open>error\<close> field is present exactly when \<^verbatim>\<open>success\<close> is false. The
  error of a failed result is "Updates not enabled" when updates do not report themselves
  enabled; otherwise it is the message of the \<^verbatim>\<open>Error\<close> that the failing call raised
  (the \<^verbatim>\<open>TypeError\<close> of a call on something not callable, or the primitive's own
  error, whatever its message is), or, for a raised value that carries no message, the
  fallback text of the handler: "BackHandler failed", "Reload failed" or
  "Force crash failed". The three direct strategies return what their handler returns, and
  a failed graceful result is the failure of the forced crash. (In the table of
  \<^verbatim>\<open>exitWithReload\<close> the entry for a promise that never settles is never read: the
  handler does not return then.)
\<close>

theorem error_reason_of_failure:
  "(exitWithStrategy rt s opts w = (Returned r, w') \<longrightarrow> (error r \<noteq> None) = (\<not> success r))
   \<and> (exit rt opts w = (Returned r, w') \<longrightarrow> (error r \<noteq> None) = (\<not> success r))
   \<and> (exitWithBackHandler rt w = (Returned r, w') \<longrightarrow>
        success r = (BackHandler_exitApp rt = ExitApp_function ExitApp_returns)
        \<and> error r =
            (case BackHandler_exitApp rt of
               ExitApp_not_callable m \<Rightarrow> Some m
             | ExitApp_function b \<Rightarrow>
                 (case b of
                    ExitApp_returns \<Rightarrow> None
                  | ExitApp_throws e \<Rightarrow>
                      (case e of Error_instance m \<Rightarrow> Some m
                           | Non_Error \<Rightarrow> Some ''BackHandler failed''))))
   \<and> (exitWithReload rt w = (Returned r, w') \<longrightarrow>
        success r = (Updates_isEnabled rt
                     \<and> Updates_reloadAsync rt = ReloadAsync_function Reload_resolves)
        \<and> error r =
            (if Updates_isEnabled rt
             then (case Updates_reloadAsync rt of
                     ReloadAsync_not_callable m \<Rightarrow> Some m
                   | ReloadAsync_function b \<Rightarrow>
                       (case b of
                          Reload_resolves \<Rightarrow> None
                        | Reload_rejects e \<Rightarrow>
                            (case e of Error_instance m \<Rightarrow> Some m
                           | Non_Error \<Rightarrow> Some ''Reload failed'')
                        | Reload_throws e \<Rightarrow>
                            (case e of Error_instance m \<Rightarrow> Some m
                           | Non_Error \<Rightarrow> Some ''Reload failed'')
                        | Reload_never_settles \<Rightarrow> None))
             else Some ''Updates not enabled''))
   \<and> (exitWithForceCrash rt message delay w = (Returned r, w') \<longrightarrow>
        success r = (setTimeout_throws rt = None)
        \<and> error r =
            (case setTimeout_throws rt of
               None \<Rightarrow> None
             | Some e \<Rightarrow>
                 (case e of Error_instance m \<Rightarrow> Some m
                           | Non_Error \<Rightarrow> Some ''Force crash failed'')))
   \<and> exitWithStrategy rt BACK_HANDLER opts w = exitWithBackHandler rt w
   \<and> exitWithStrategy rt RELOAD opts w = exitWithReload rt w
   \<and> exitWithStrategy rt FORCE_CRASH opts w =
       exitWithForceCrash rt (errorMessage (spread defaultOptions opts))
         (forceDelay (spread defaultOptions opts)) w
   \<and> (exitWithStrategy rt GRACEFUL opts w = (Returned r, w') \<and> \<not> success r \<longrightarrow>
        strategy r = FORCE_CRASH
        \<and> error r =
            (case setTimeout_throws rt of
               None \<Rightarrow> None
             | Some e \<Rightarrow>
                 (case e of Error_instance m \<Rightarrow> Some m
                           | Non_Error \<Rightarrow> Some ''Force crash failed'')))"
proof (intro conjI)
  show bh: "exitWithBackHandler rt w = (Returned r, w') \<longrightarrow>
        success r = (BackHandler_exitApp rt = ExitApp_function ExitApp_returns)
        \<and> error r =
            (case BackHandler_exitApp rt of
               ExitApp_not_callable m \<Rightarrow> Some m
             | ExitApp_function b \<Rightarrow>
                 (case b of
                    ExitApp_returns \<Rightarrow> None
                  | ExitApp_throws e \<Rightarrow>
                      (case e of Error_instance m \<Rightarrow> Some m
                           | Non_Error \<Rightarrow> Some ''BackHandler failed'')))" for r w w'
    by (auto simp add: exitWithBackHandler_eval message_or_def
        split: exitApp_slot.splits exitApp_behaviour.splits thrown.splits)
  show rl: "exitWithReload rt w = (Returned r, w') \<longrightarrow>
        success r = (Updates_isEnabled rt
                     \<and> Updates_reloadAsync rt = ReloadAsync_function Reload_resolves)
        \<and> error r =
            (if Updates_isEnabled rt
             then (case Updates_reloadAsync rt of
                     ReloadAsync_not_callable m \<Rightarrow> Some m
                   | ReloadAsync_function b \<Rightarrow>
                       (case b of
                          Reload_resolves \<Rightarrow> None
                        | Reload_rejects e \<Rightarrow>
                            (case e of Error_instance m \<Rightarrow> Some m
                           | Non_Error \<Rightarrow> Some ''Reload failed'')
                        | Reload_throws e \<Rightarrow>
                            (case e of Error_instance m \<Rightarrow> Some m
                           | Non_Error \<Rightarrow> Some ''Reload failed'')
                        | Reload_never_settles \<Rightarrow> None))
             else Some ''Updates not enabled'')" for r w w'
    by (auto simp add: exitWithReload_eval message_or_def
        split: if_splits reloadAsync_slot.splits reloadAsync_behaviour.splits thrown.splits)
  show fc: "exitWithForceCrash rt message delay w = (Returned r, w') \<longrightarrow>
        success r = (setTimeout_throws rt = None)
        \<and> error r =
            (case setTimeout_throws rt of
               None \<Rightarrow> None
             | Some e \<Rightarrow>
                 (case e of Error_instance m \<Rightarrow> Some m
                           | Non_Error \<Rightarrow> Some ''Force crash failed''))" for r w w' message delay
    by (auto simp add: exitWithForceCrash_eval message_or_def
        split: option.splits thrown.splits)
  show e1: "exitWithStrategy rt BACK_HANDLER opts w = exitWithBackHandler rt w"
    and e2: "exitWithStrategy rt RELOAD opts w = exitWithReload rt w"
    and e3: "exitWithStrategy rt FORCE_CRASH opts w =
       exitWithForceCrash rt (errorMessage (spread defaultOptions opts))
         (forceDelay (spread defaultOptions opts)) w"
    by (simp_all add: exitWithStrategy_is_dispatch dispatch_def ExitApp_def)
  show gr: "exitWithStrategy rt GRACEFUL opts w = (Returned r, w') \<and> \<not> success r \<longrightarrow>
        strategy r = FORCE_CRASH
        \<and> error r =
            (case setTimeout_throws rt of
               None \<Rightarrow> None
             | Some e \<Rightarrow>
                 (case e of Error_instance m \<Rightarrow> Some m
                           | Non_Error \<Rightarrow> Some ''Force crash failed''))" for r
    unfolding graceful_is_chain
    by (cases "Updates_isEnabled rt"; cases "Updates_reloadAsync rt";
        cases "BackHandler_exitApp rt"; cases "setTimeout_throws rt")
      (auto simp add: exitGracefully_def exitGracefully_fallback_def ExitApp_def bind_c_def
        return_c_def handler_tables message_or_def
        split: if_splits exitApp_behaviour.splits reloadAsync_behaviour.splits thrown.splits)
  have gi: "exitWithStrategy rt GRACEFUL opts w = (Returned r, w') \<longrightarrow>
      (error r \<noteq> None) = (\<not> success r)"
    unfolding graceful_is_chain
    by (cases "Updates_isEnabled rt"; cases "Updates_reloadAsync rt";
        cases "BackHandler_exitApp rt"; cases "setTimeout_throws rt")
      (auto simp add: exitGracefully_def exitGracefully_fallback_def ExitApp_def bind_c_def
        return_c_def handler_tables
        split: if_splits exitApp_behaviour.splits reloadAsync_behaviour.splits)
  have bi: "exitWithBackHandler rt w = (Returned r, w') \<longrightarrow> (error r \<noteq> None) = (\<not> success r)"
    by (auto simp add: exitWithBackHandler_eval
        split: exitApp_slot.splits exitApp_behaviour.splits)
  have ri: "exitWithReload rt w = (Returned r, w') \<longrightarrow> (error r \<noteq> None) = (\<not> success r)"
    by (auto simp add: exitWithReload_eval
        split: if_splits reloadAsync_slot.splits reloadAsync_behaviour.splits)
  have fi: "exitWithForceCrash rt message delay w = (Returned r, w') \<longrightarrow>
      (error r \<noteq> None) = (\<not> success r)" for message delay
    by (auto simp add: exitWithForceCrash_eval split: option.splits)
  show "exitWithStrategy rt s opts w = (Returned r, w') \<longrightarrow> (error r \<noteq> None) = (\<not> success r)"
    using gi bi ri fi e1 e2 e3 by (cases s) simp_all
  show "exit rt opts w = (Returned r, w') \<longrightarrow> (error r \<noteq> None) = (\<not> success r)"
    using gi by (simp add: exit_def exitWithStrategy_def exit_on_is_graceful)
qed

theorem error_reason_of_failure_witness:
  "exitWithStrategy
      \<lparr>BackHandler_exitApp = ExitApp_function (ExitApp_throws Non_Error), Updates_isEnabled = True,
       Updates_reloadAsync = ReloadAsync_function (Reload_rejects (Error_instance ''offline'')),
       setTimeout_throws = Some Non_Error, ErrorUtils_reportFatalError = True\<rparr>
      RELOAD \<lparr>errorMessage_opt = None, useReload_opt = None, forceDelay_opt = None\<rparr>
      \<lparr>events = [], timers = []\<rparr> =
     (Returned \<lparr>success = False, strategy = RELOAD, error = Some ''offline''\<rparr>,
      \<lparr>events = [ReloadAsync_called], timers = []\<rparr>)
   \<and> exitWithBackHandler
      \<lparr>BackHandler_exitApp = ExitApp_function (ExitApp_throws Non_Error), Updates_isEnabled = True,
       Updates_reloadAsync = ReloadAsync_function (Reload_rejects (Error_instance ''offline'')),
       setTimeout_throws = Some Non_Error, ErrorUtils_reportFatalError = True\<rparr>
      \<lparr>events = [], timers = []\<rparr> =
     (Returned \<lparr>success = False, strategy = BACK_HANDLER, error = Some ''BackHandler failed''\<rparr>,
      \<lparr>events = [ExitApp_called], timers = []\<rparr>)
   \<and> exitWithStrategy
      \<lparr>BackHandler_exitApp = ExitApp_function (ExitApp_throws Non_Error), Updates_isEnabled = True,
       Updates_reloadAsync = ReloadAsync_function (Reload_rejects (Error_instance ''offline'')),
       setTimeout_throws = Some Non_Error, ErrorUtils_reportFatalError = True\<rparr>
      GRACEFUL \<lparr>errorMessage_opt = None, useReload_opt = None, forceDelay_opt = None\<rparr>
      \<lparr>events = [], timers = []\<rparr> =
     (Returned \<lparr>success = False, strategy = FORCE_CRASH, error = Some ''Force crash failed''\<rparr>,
      \<lparr>events = [ReloadAsync_called, ExitApp_called], timers = []\<rparr>)
   \<and> error \<lparr>success = False, strategy = BACK_HANDLER, error = Some ''BackHandler failed''\<rparr> =
       Some ''BackHandler failed''
   \<and> error \<lparr>success = False, strategy = FORCE_CRASH, error = Some ''Force crash failed''\<rparr> =
       Some ''Force crash failed''"
proof -
  let ?rt = "\<lparr>BackHandler_exitApp = ExitApp_function (ExitApp_throws Non_Error), Updates_isEnabled = True,
       Updates_reloadAsync = ReloadAsync_function (Reload_rejects (Error_instance ''offline'')),
       setTimeout_throws = Some Non_Error, ErrorUtils_reportFatalError = True\<rparr>"
  let ?none = "\<lparr>errorMessage_opt = None, useReload_opt = None, forceDelay_opt = None\<rparr>"
  let ?w0 = "\<lparr>events = [], timers = []\<rparr>"
  have a: "exitWithStrategy ?rt RELOAD ?none ?w0 =
      (Returned \<lparr>success = False, strategy = RELOAD, error = Some ''offline''\<rparr>,
       \<lparr>events = [ReloadAsync_called], timers = []\<rparr>)"
    by (simp add: exitWithStrategy_is_dispatch dispatch_def ExitApp_def exitWithReload_eval
        message_or_def)
  have b: "exitWithBackHandler ?rt ?w0 =
      (Returned \<lparr>success = False, strategy = BACK_HANDLER, error = Some ''BackHandler failed''\<rparr>,
       \<lparr>events = [ExitApp_called], timers = []\<rparr>)"
    by (simp add: exitWithBackHandler_eval message_or_def)
  have c: "exitWithStrategy ?rt GRACEFUL ?none ?w0 =
      (Returned \<lparr>success = False, strategy = FORCE_CRASH, error = Some ''Force crash failed''\<rparr>,
       \<lparr>events = [ReloadAsync_called, ExitApp_called], timers = []\<rparr>)"
    by (simp add: graceful_is_chain exitGracefully_def exitGracefully_fallback_def ExitApp_def
        bind_c_def return_c_def handler_tables spread_def defaultOptions_def truthy_def
        message_or_def)
  have d: "error \<lparr>success = False, strategy = BACK_HANDLER, error = Some ''BackHandler failed''\<rparr> =
      Some ''BackHandler failed''"
    using error_reason_of_failure
      [where rt = ?rt and w = ?w0
        and r = "\<lparr>success = False, strategy = BACK_HANDLER, error = Some ''BackHandler failed''\<rparr>"
        and w' = "\<lparr>events = [ExitApp_called], timers = []\<rparr>",
        THEN conjunct2, THEN conjunct2, THEN conjunct1, rule_format, OF b]
    by simp
  have e: "error \<lparr>success = False, strategy = FORCE_CRASH, error = Some ''Force crash failed''\<rparr> =
      Some ''Force crash failed''"
    using error_reason_of_failure
      [where rt = ?rt and opts = ?none and w = ?w0
        and r = "\<lparr>success = False, strategy = FORCE_CRASH, error = Some ''Force crash failed''\<rparr>"
        and w' = "\<lparr>events = [ReloadAsync_called, ExitApp_called], timers = []\<rparr>",
        THEN conjunct2, THEN conjunct2, THEN conjunct2, THEN conjunct2, THEN conjunct2,
        THEN conjunct2, THEN conjunct2, THEN conjunct2, rule_format, OF conjI [OF c]]
    by simp
  from a b c d e show ?thesis by (intro conjI)
qed

text \<open>
  C6 as stated fails: when \<^verbatim>\<open>exitApp\<close> throws an \<^verbatim>\<open>Error\<close> with an empty message, the
  failed result carries the empty string, which is no reason a person can read.
\<close>

theorem empty_reason_counterexample:
  "exitWithStrategy
      \<lparr>BackHandler_exitApp = ExitApp_function (ExitApp_throws (Error_instance [])), Updates_isEnabled = False,
       Updates_reloadAsync = ReloadAsync_not_callable ''null is not a function'',
       setTimeout_throws = None, ErrorUtils_reportFatalError = True\<rparr>
      BACK_HANDLER \<lparr>errorMessage_opt = None, useReload_opt = None, forceDelay_opt = None\<rparr>
      \<lparr>events = [], timers = []\<rparr> =
     (Returned \<lparr>success = False, strategy = BACK_HANDLER, error = Some []\<rparr>,
      \<lparr>events = [ExitApp_called], timers = []\<rparr>)"
  by (simp add: exitWithStrategy_is_dispatch dispatch_def ExitApp_def exitWithBackHandler_eval
      message_or_def)

text \<open>
  C7. Whenever \<^verbatim>\<open>isBackHandlerSupported\<close> is false, \<^verbatim>\<open>exitWithStrategy\<close> with
  \<^verbatim>\<open>BACK_HANDLER\<close> returns a result with \<^verbatim>\<open>success\<close> false (its error is the message
  of the \<^verbatim>\<open>TypeError\<close> of the failed call) and the world is unchanged: no primitive ran.
\<close>

theorem exitWithBackHandler_unsupported:
  "\<not> isBackHandlerSupported rt \<Longrightarrow>
     \<exists>m. BackHandler_exitApp rt = ExitApp_not_callable m
       \<and> exitWithStrategy rt BACK_HANDLER opts w =
           (Returned \<lparr>success = False, strategy = BACK_HANDLER, error = Some m\<rparr>, w)"
  by (cases "BackHandler_exitApp rt")
    (simp_all add: isBackHandlerSupported_def exitWithStrategy_is_dispatch dispatch_def
      ExitApp_def exitWithBackHandler_eval)

theorem exitWithBackHandler_unsupported_witness:
  "\<not> isBackHandlerSupported
        \<lparr>BackHandler_exitApp = ExitApp_not_callable ''exitApp is not a function'',
         Updates_isEnabled = False, Updates_reloadAsync = ReloadAsync_not_callable ''null'',
         setTimeout_throws = None, ErrorUtils_reportFatalError = True\<rparr>
   \<and> exitWithStrategy
        \<lparr>BackHandler_exitApp = ExitApp_not_callable ''exitApp is not a function'',
         Updates_isEnabled = False, Updates_reloadAsync = ReloadAsync_not_callable ''null'',
         setTimeout_throws = None, ErrorUtils_reportFatalError = True\<rparr>
        BACK_HANDLER
        \<lparr>errorMessage_opt = None, useReload_opt = None, forceDelay_opt = None\<rparr>
        \<lparr>events = [], timers = []\<rparr> =
      (Returned \<lparr>success = False, strategy = BACK_HANDLER,
                 error = Some ''exitApp is not a function''\<rparr>,
       \<lparr>events = [], timers = []\<rparr>)"
  using exitWithBackHandler_unsupported
    [of "\<lparr>BackHandler_exitApp = ExitApp_not_callable ''exitApp is not a function'',
         Updates_isEnabled = False, Updates_reloadAsync = ReloadAsync_not_callable ''null'',
         setTimeout_throws = None, ErrorUtils_reportFatalError = True\<rparr>"
        "\<lparr>errorMessage_opt = None, useReload_opt = None, forceDelay_opt = None\<rparr>"
        "\<lparr>events = [], timers = []\<rparr>"]
  by (simp add: isBackHandlerSupported_def)

text \<open>
  C8. \<^verbatim>\<open>getSupportedStrategies\<close> always starts with \<^verbatim>\<open>FORCE_CRASH\<close> and ends with
  \<^verbatim>\<open>GRACEFUL\<close>; \<^verbatim>\<open>BACK_HANDLER\<close> is in it exactly when
  \<^verbatim>\<open>isBackHandlerSupported\<close> holds, \<^verbatim>\<open>RELOAD\<close> exactly when
  \<^verbatim>\<open>isReloadSupported\<close> holds, and the two stand in that order between the fixed ends.
\<close>

theorem getSupportedStrategies_shape:
  "hd (getSupportedStrategies rt) = FORCE_CRASH
   \<and> last (getSupportedStrategies rt) = GRACEFUL
   \<and> FORCE_CRASH \<in> set (getSupportedStrategies rt)
   \<and> GRACEFUL \<in> set (getSupportedStrategies rt)
   \<and> (BACK_HANDLER \<in> set (getSupportedStrategies rt)) = isBackHandlerSupported rt
   \<and> (RELOAD \<in> set (getSupportedStrategies rt)) = isReloadSupported rt
   \<and> getSupportedStrategies rt =
       [FORCE_CRASH] @ (if isBackHandlerSupported rt then [BACK_HANDLER] else [])
         @ (if isReloadSupported rt then [RELOAD] else []) @ [GRACEFUL]"
  by (simp add: getSupportedStrategies_def Let_def)

text \<open>
  C9. The merged configuration takes every omitted field from the default record
  (\<^verbatim>\<open>errorMessage\<close> "App terminated", \<^verbatim>\<open>useReload\<close> true, \<^verbatim>\<open>forceDelay\<close> 100) and
  every field the caller set from the caller; merging \<^verbatim>\<open>{forceDelay:5}\<close> yields
  "App terminated", true, 5. A key that is present with the value \<^verbatim>\<open>undefined\<close> is not
  an omitted one: the spread copies it. The merged record is what the strategy paths
  consume: the forced crash queues its timer with the merged delay and message, the
  graceful chain runs on the merged record through either entry point, and the back
  handler and reload paths use no option. With \<^verbatim>\<open>{errorMessage:"X", forceDelay:5}\<close> the
  queued timer is (5, "X"), and with \<^verbatim>\<open>{useReload:false}\<close> the reload step is skipped.
\<close>

theorem spread_fills_omitted_fields:
  "errorMessage (spread defaultOptions opts) =
     (case errorMessage_opt opts of None \<Rightarrow> Defined ''App terminated'' | Some v \<Rightarrow> v)
   \<and> useReload (spread defaultOptions opts) =
     (case useReload_opt opts of None \<Rightarrow> Defined True | Some v \<Rightarrow> v)
   \<and> forceDelay (spread defaultOptions opts) =
     (case forceDelay_opt opts of None \<Rightarrow> Defined 100 | Some v \<Rightarrow> v)
   \<and> spread defaultOptions
       \<lparr>errorMessage_opt = None, useReload_opt = None, forceDelay_opt = Some (Defined 5)\<rparr> =
     \<lparr>errorMessage = Defined ''App terminated'', useReload = Defined True,
      forceDelay = Defined 5\<rparr>
   \<and> spread defaultOptions
       \<lparr>errorMessage_opt = None, useReload_opt = None, forceDelay_opt = Some Undefined\<rparr> =
     \<lparr>errorMessage = Defined ''App terminated'', useReload = Defined True,
      forceDelay = Undefined\<rparr>
   \<and> exitWithStrategy rt FORCE_CRASH opts w =
       exitWithForceCrash rt
         (case errorMessage_opt opts of None \<Rightarrow> Defined ''App terminated'' | Some v \<Rightarrow> v)
         (case forceDelay_opt opts of None \<Rightarrow> Defined 100 | Some v \<Rightarrow> v) w
   \<and> timers (snd (exitWithStrategy rt FORCE_CRASH opts w)) =
       (case setTimeout_throws rt of
          None \<Rightarrow>
            timers w @
              [((case forceDelay_opt opts of None \<Rightarrow> Defined 100 | Some v \<Rightarrow> v),
                (case errorMessage_opt opts of None \<Rightarrow> Defined ''App terminated'' | Some v \<Rightarrow> v))]
        | Some e \<Rightarrow> timers w)
   \<and> exitWithStrategy rt GRACEFUL opts w =
       exitGracefully (ExitApp rt)
         \<lparr>errorMessage = (case errorMessage_opt opts of None \<Rightarrow> Defined ''App terminated'' | Some v \<Rightarrow> v),
          useReload = (case useReload_opt opts of None \<Rightarrow> Defined True | Some v \<Rightarrow> v),
          forceDelay = (case forceDelay_opt opts of None \<Rightarrow> Defined 100 | Some v \<Rightarrow> v)\<rparr> w
   \<and> exit rt opts w =
       exitGracefully (ExitApp rt)
         \<lparr>errorMessage = (case errorMessage_opt opts of None \<Rightarrow> Defined ''App terminated'' | Some v \<Rightarrow> v),
          useReload = (case useReload_opt opts of None \<Rightarrow> Defined True | Some v \<Rightarrow> v),
          forceDelay = (case forceDelay_opt opts of None \<Rightarrow> Defined 100 | Some v \<Rightarrow> v)\<rparr> w
   \<and> exitWithStrategy rt BACK_HANDLER opts w = exitWithBackHandler rt w
   \<and> exitWithStrategy rt RELOAD opts w = exitWithReload rt w
   \<and> exitWithStrategy
       \<lparr>BackHandler_exitApp = ExitApp_not_callable ''exitApp is not a function'', Updates_isEnabled = False,
       Updates_reloadAsync = ReloadAsync_not_callable ''null is not a function'',
       setTimeout_throws = None, ErrorUtils_reportFatalError = False\<rparr>
       FORCE_CRASH
       \<lparr>errorMessage_opt = Some (Defined ''X''), useReload_opt = None, forceDelay_opt = Some (Defined 5)\<rparr>
       \<lparr>events = [], timers = []\<rparr> =
     (Returned \<lparr>success = True, strategy = FORCE_CRASH, error = None\<rparr>,
      \<lparr>events = [], timers = [(Defined 5, Defined ''X'')]\<rparr>)
   \<and> exit
       \<lparr>BackHandler_exitApp = ExitApp_not_callable ''exitApp is not a function'', Updates_isEnabled = False,
       Updates_reloadAsync = ReloadAsync_not_callable ''null is not a function'',
       setTimeout_throws = None, ErrorUtils_reportFatalError = False\<rparr>
       \<lparr>errorMessage_opt = Some (Defined ''X''), useReload_opt = None, forceDelay_opt = Some (Defined 5)\<rparr>
       \<lparr>events = [], timers = []\<rparr> =
     (Returned \<lparr>success = True, strategy = FORCE_CRASH, error = None\<rparr>,
      \<lparr>events = [], timers = [(Defined 5, Defined ''X'')]\<rparr>)
   \<and> exit
       \<lparr>BackHandler_exitApp = ExitApp_function ExitApp_returns, Updates_isEnabled = True,
       Updates_reloadAsync = ReloadAsync_function Reload_resolves,
       setTimeout_throws = None, ErrorUtils_reportFatalError = True\<rparr>
       \<lparr>errorMessage_opt = None, useReload_opt = Some (Defined False), forceDelay_opt = None\<rparr>
       \<lparr>events = [], timers = []\<rparr> =
     (Returned \<lparr>success = True, strategy = BACK_HANDLER, error = None\<rparr>,
      \<lparr>events = [ExitApp_called], timers = []\<rparr>)"
proof -
  have m: "spread defaultOptions opts =
      \<lparr>errorMessage = (case errorMessage_opt opts of None \<Rightarrow> Defined ''App terminated'' | Some v \<Rightarrow> v),
          useReload = (case useReload_opt opts of None \<Rightarrow> Defined True | Some v \<Rightarrow> v),
          forceDelay = (case forceDelay_opt opts of None \<Rightarrow> Defined 100 | Some v \<Rightarrow> v)\<rparr>"
    by (simp add: spread_def defaultOptions_def split: option.split)
  have same: "exit rt opts w = exitWithStrategy rt GRACEFUL opts w" for rt opts w
    by (simp add: exit_def exitWithStrategy_def exit_on_is_graceful)
  have fc: "exitWithStrategy rt FORCE_CRASH opts w =
       exitWithForceCrash rt
         (case errorMessage_opt opts of None \<Rightarrow> Defined ''App terminated'' | Some v \<Rightarrow> v)
         (case forceDelay_opt opts of None \<Rightarrow> Defined 100 | Some v \<Rightarrow> v) w"
    by (simp add: exitWithStrategy_is_dispatch dispatch_def ExitApp_def m)
  have tm: "timers (snd (exitWithStrategy rt FORCE_CRASH opts w)) =
       (case setTimeout_throws rt of
          None \<Rightarrow>
            timers w @
              [((case forceDelay_opt opts of None \<Rightarrow> Defined 100 | Some v \<Rightarrow> v),
                (case errorMessage_opt opts of None \<Rightarrow> Defined ''App terminated'' | Some v \<Rightarrow> v))]
        | Some e \<Rightarrow> timers w)"
    by (simp add: fc exitWithForceCrash_eval split: option.split)
  have gr: "exitWithStrategy rt GRACEFUL opts w =
       exitGracefully (ExitApp rt)
         \<lparr>errorMessage = (case errorMessage_opt opts of None \<Rightarrow> Defined ''App terminated'' | Some v \<Rightarrow> v),
          useReload = (case useReload_opt opts of None \<Rightarrow> Defined True | Some v \<Rightarrow> v),
          forceDelay = (case forceDelay_opt opts of None \<Rightarrow> Defined 100 | Some v \<Rightarrow> v)\<rparr> w"
    by (simp add: graceful_is_chain m)
  have ex1: "exitWithStrategy
       \<lparr>BackHandler_exitApp = ExitApp_not_callable ''exitApp is not a function'', Updates_isEnabled = False,
       Updates_reloadAsync = ReloadAsync_not_callable ''null is not a function'',
       setTimeout_throws = None, ErrorUtils_reportFatalError = False\<rparr>
       FORCE_CRASH
       \<lparr>errorMessage_opt = Some (Defined ''X''), useReload_opt = None, forceDelay_opt = Some (Defined 5)\<rparr>
       \<lparr>events = [], timers = []\<rparr> =
     (Returned \<lparr>success = True, strategy = FORCE_CRASH, error = None\<rparr>,
      \<lparr>events = [], timers = [(Defined 5, Defined ''X'')]\<rparr>)"
    by (simp add: exitWithStrategy_is_dispatch dispatch_def ExitApp_def exitWithForceCrash_eval
        spread_def defaultOptions_def)
  have ex2: "exit
       \<lparr>BackHandler_exitApp = ExitApp_not_callable ''exitApp is not a function'', Updates_isEnabled = False,
       Updates_reloadAsync = ReloadAsync_not_callable ''null is not a function'',
       setTimeout_throws = None, ErrorUtils_reportFatalError = False\<rparr>
       \<lparr>errorMessage_opt = Some (Defined ''X''), useReload_opt = None, forceDelay_opt = Some (Defined 5)\<rparr>
       \<lparr>events = [], timers = []\<rparr> =
     (Returned \<lparr>success = True, strategy = FORCE_CRASH, error = None\<rparr>,
      \<lparr>events = [], timers = [(Defined 5, Defined ''X'')]\<rparr>)"
    by (simp add: same graceful_is_chain exitGracefully_def exitGracefully_fallback_def
        ExitApp_def bind_c_def return_c_def handler_tables spread_def defaultOptions_def
        truthy_def)
  have ex3: "exit
       \<lparr>BackHandler_exitApp = ExitApp_function ExitApp_returns, Updates_isEnabled = True,
       Updates_reloadAsync = ReloadAsync_function Reload_resolves,
       setTimeout_throws = None, ErrorUtils_reportFatalError = True\<rparr>
       \<lparr>errorMessage_opt = None, useReload_opt = Some (Defined False), forceDelay_opt = None\<rparr>
       \<lparr>events = [], timers = []\<rparr> =
     (Returned \<lparr>success = True, strategy = BACK_HANDLER, error = None\<rparr>,
      \<lparr>events = [ExitApp_called], timers = []\<rparr>)"
    by (simp add: same graceful_is_chain exitGracefully_def exitGracefully_fallback_def
        ExitApp_def bind_c_def return_c_def handler_tables spread_def defaultOptions_def
        truthy_def)
  show ?thesis
    apply (intro conjI)
    apply (simp add: m)
    apply (simp add: m)
    apply (simp add: m)
    apply (simp add: spread_def defaultOptions_def)
    apply (simp add: spread_def defaultOptions_def)
    apply (rule fc)
    apply (rule tm)
    apply (rule gr)
    apply (simp add: same gr)
    apply (simp add: exitWithStrategy_is_dispatch dispatch_def ExitApp_def)
    apply (simp add: exitWithStrategy_is_dispatch dispatch_def ExitApp_def)
    apply (rule ex1)
    apply (rule ex2)
    apply (rule ex3)
    done
qed

text \<open>
  C10. For every options record, the convenience entry point \<^verbatim>\<open>ExitApp.exit\<close> gives
  the same result, and leaves the same world, as \<^verbatim>\<open>ExitApp.exitWithStrategy\<close> called
  with the strategy \<^verbatim>\<open>GRACEFUL\<close> and the same options, under the same runtime. The
  options are merged with the defaults twice on that path; merging is idempotent.
\<close>

theorem exit_is_exitWithStrategy_GRACEFUL:
  "exit rt opts = exitWithStrategy rt GRACEFUL opts"
  by (simp add: exit_def exitWithStrategy_def exit_on_def exitWithStrategy_on_def Let_def
      spread_as_options)

end
